theory Spec2Isabelle
  imports Main
begin

section \<open>Strings and the library functions the program calls\<close>

text \<open>
  Go strings and byte slices are byte sequences: \<open>string\<close> (a list of 8-bit characters).
  The functions of this section are the standard-library functions the program calls
  (package strings, strconv, bufio, regexp), written out for the arguments the program
  passes them.
\<close>

text \<open>\<open>strings.HasPrefix\<close> and \<open>strings.TrimPrefix\<close>.\<close>

definition HasPrefix :: "string \<Rightarrow> string \<Rightarrow> bool" where
  "HasPrefix s p = (take (length p) s = p)"

definition TrimPrefix :: "string \<Rightarrow> string \<Rightarrow> string" where
  "TrimPrefix s p = (if HasPrefix s p then drop (length p) s else s)"

text \<open>
  \<open>strings.Split(s, sep)\<close> for a separator of one byte: the pieces between the
  separators, in order; the empty string gives one empty piece. (The result is never
  empty, so the first case below is never taken.)
\<close>

fun Split :: "string \<Rightarrow> char \<Rightarrow> string list" where
  "Split [] sep = [[]]"
| "Split (c # cs) sep =
     (case Split cs sep of
        [] \<Rightarrow> [[c]]
      | p # ps \<Rightarrow> if c = sep then [] # p # ps else (c # p) # ps)"

text \<open>
  \<open>strings.Index(s, sep)\<close> for a separator of one byte: the index of its first
  occurrence, or \<open>-1\<close>.
\<close>

fun IndexFrom :: "int \<Rightarrow> string \<Rightarrow> char \<Rightarrow> int" where
  "IndexFrom i [] sep = - 1"
| "IndexFrom i (c # cs) sep = (if c = sep then i else IndexFrom (i + 1) cs sep)"

definition Index :: "string \<Rightarrow> char \<Rightarrow> int" where
  "Index s sep = IndexFrom 0 s sep"

text \<open>
  \<open>strings.TrimSpace\<close> removes leading and trailing Unicode white space
  (\<open>unicode.IsSpace\<close>). On bytes, a white-space rune is one of the UTF-8 encodings
  below: the six ASCII ones, U+0085, U+00A0, U+1680, U+2000 to U+200A, U+2028, U+2029,
  U+202F, U+205F and U+3000. A byte that starts no valid encoding decodes to U+FFFD, which
  is not white space.
\<close>

definition spaceRunes :: "string list" where
  "spaceRunes =
     [[CHR 0x09], [CHR 0x0A], [CHR 0x0B], [CHR 0x0C], [CHR 0x0D], [CHR 0x20],
      [CHR 0xC2, CHR 0x85], [CHR 0xC2, CHR 0xA0],
      [CHR 0xE1, CHR 0x9A, CHR 0x80],
      [CHR 0xE2, CHR 0x80, CHR 0x80], [CHR 0xE2, CHR 0x80, CHR 0x81],
      [CHR 0xE2, CHR 0x80, CHR 0x82], [CHR 0xE2, CHR 0x80, CHR 0x83],
      [CHR 0xE2, CHR 0x80, CHR 0x84], [CHR 0xE2, CHR 0x80, CHR 0x85],
      [CHR 0xE2, CHR 0x80, CHR 0x86], [CHR 0xE2, CHR 0x80, CHR 0x87],
      [CHR 0xE2, CHR 0x80, CHR 0x88], [CHR 0xE2, CHR 0x80, CHR 0x89],
      [CHR 0xE2, CHR 0x80, CHR 0x8A],
      [CHR 0xE2, CHR 0x80, CHR 0xA8], [CHR 0xE2, CHR 0x80, CHR 0xA9],
      [CHR 0xE2, CHR 0x80, CHR 0xAF], [CHR 0xE2, CHR 0x81, CHR 0x9F],
      [CHR 0xE3, CHR 0x80, CHR 0x80]]"

text \<open>
  The number of bytes of the white-space rune at the head of \<open>s\<close> (among the encodings
  \<open>rs\<close>); \<open>0\<close> when \<open>s\<close> does not start with one.
\<close>

fun leadSpace :: "string list \<Rightarrow> string \<Rightarrow> nat" where
  "leadSpace [] s = 0"
| "leadSpace (r # rs) s =
     (if r \<noteq> [] \<and> take (length r) s = r then length r else leadSpace rs s)"

lemma leadSpace_le: "leadSpace rs s \<le> length s"
proof (induction rs)
  case Nil
  show ?case by simp
next
  case (Cons r rs)
  have "take (length r) s = r \<Longrightarrow> length r \<le> length s"
    by (metis length_take min.cobounded1)
  with Cons show ?case by simp
qed

function trimLeft :: "string list \<Rightarrow> string \<Rightarrow> string" where
  "trimLeft rs s = (if leadSpace rs s = 0 then s else trimLeft rs (drop (leadSpace rs s) s))"
  by pat_completeness auto
termination
proof (relation "measure (\<lambda>(rs, s). length s)")
  show "wf (measure (\<lambda>(rs, s). length s))" by simp
next
  fix rs :: "string list" and s :: string
  assume nz: "leadSpace rs s \<noteq> 0"
  have "leadSpace rs s \<le> length s" by (rule leadSpace_le)
  with nz show "((rs, drop (leadSpace rs s) s), (rs, s)) \<in> measure (\<lambda>(rs, s). length s)"
    by simp
qed

declare trimLeft.simps [simp del]

definition TrimSpace :: "string \<Rightarrow> string" where
  "TrimSpace s = rev (trimLeft (map rev spaceRunes) (rev (trimLeft spaceRunes s)))"

text \<open>
  \<open>strconv.Atoi\<close> on a string of decimal digits (the only strings the program passes
  it), on a platform whose \<open>int\<close> has 64 bits: the number, or the largest \<open>int\<close> when
  the number is out of range (the error that comes with it is discarded by the caller).
\<close>

definition isDigit :: "char \<Rightarrow> bool" where
  "isDigit c = (c \<in> set ''0123456789'')"

definition digitsValue :: "string \<Rightarrow> int" where
  "digitsValue ds = foldl (\<lambda>a c. 10 * a + (int (of_char c) - 48)) 0 ds"

definition maxInt :: int where
  "maxInt = 9223372036854775807"

definition Atoi :: "string \<Rightarrow> int" where
  "Atoi ds = (if digitsValue ds > maxInt then maxInt else digitsValue ds)"

section \<open>Source normalizer\<close>

text \<open>
  Go's error values. \<open>MissingPackage\<close> is \<^verbatim>\<open>code must contain "package <name>"\<close>,
  \<open>IncorrectData\<close> is \<open>incorrect data received\<close>, \<open>TidyFailed err\<close> is
  \<open>go mod tidy failed: \<close> followed by \<open>err\<close>, \<open>BuildFailed err\<close> is \<open>build failed: \<close>
  followed by \<open>err\<close>, \<open>CompilationFailed\<close> is \<open>compilation failed\<close>, and
  \<open>Wrapped text err\<close> is \<open>text\<close>, a colon and \<open>err\<close>. \<open>PathError\<close> and \<open>ExitError\<close>
  are the errors of the operating system and of a subprocess.
\<close>

datatype error =
    MissingPackage
  | IncorrectData
  | TidyFailed error
  | BuildFailed error
  | CompilationFailed
  | Wrapped string error
  | PathError string string
  | ExitError string

text \<open>
  \<open>stripShebang\<close>: the loop from index 2 looks for the first line feed and returns what
  follows it. Go returns the slice and the error together.
\<close>

fun afterNewline :: "string \<Rightarrow> string option" where
  "afterNewline [] = None"
| "afterNewline (c # cs) = (if c = CHR 0x0A then Some cs else afterNewline cs)"

definition stripShebang :: "string \<Rightarrow> string \<times> error option" where
  "stripShebang code =
     (if length code > 2 \<and> code ! 0 = CHR ''#'' \<and> code ! 1 = CHR ''!'' then
        (case afterNewline (drop 2 code) of
           Some rest \<Rightarrow> (rest, None)
         | None \<Rightarrow> (code, Some IncorrectData))
      else (code, None))"

text \<open>
  \<open>validateCode\<close> reads lines with a \<open>bufio.Scanner\<close> (\<open>ScanLines\<close>): the
  tokens are the pieces between line feeds, a final piece counts when it is not empty, and
  one trailing carriage return is dropped from each. The scanner's buffer holds at most
  \<open>maxScanTokenSize\<close> bytes: at a longer line \<open>Scan\<close> reports false and the loop ends.
\<close>

definition scanLines :: "string \<Rightarrow> string list" where
  "scanLines s = (let ps = Split s (CHR 0x0A) in if last ps = [] then butlast ps else ps)"

definition dropCR :: "string \<Rightarrow> string" where
  "dropCR s = (if s \<noteq> [] \<and> last s = CHR 0x0D then butlast s else s)"

definition maxScanTokenSize :: nat where
  "maxScanTokenSize = 65536"

fun validateLoop :: "string list \<Rightarrow> error option" where
  "validateLoop [] = Some MissingPackage"
| "validateLoop (tok # toks) =
     (if \<not> length tok < maxScanTokenSize then Some MissingPackage
      else let line = TrimSpace (dropCR tok) in
        if line = [] \<or> HasPrefix line ''//'' then validateLoop toks
        else if HasPrefix line ''package '' then None
        else Some MissingPackage)"

definition validateCode :: "string \<Rightarrow> error option" where
  "validateCode code = validateLoop (scanLines code)"

section \<open>Diagnostic formatter\<close>

text \<open>
  What the program prints, one event for each print statement; colours are left out.
  The first ten events are printed by the diagnostic formatter on standard output.
\<close>

datatype event =
    Title string
  | FileLoc string
  | LineLoc int
  | ColLoc string
  | Msg string
  | Marked int string
  | Context int string
  | Plain string
  | Blank
  | Failed
  | Notice string
  | Stdout string
  | Stderr string
  | StderrError string error

text \<open>
  \<open>errorPattern\<close> is the regular expression \<^verbatim>\<open>^(.+)\:(\d+)\:(\d+)\:\s*(.+)$\<close>. Go's
  \<open>regexp\<close> returns the match a backtracking search finds first, each repetition taking
  as much as it can. \<open>.\<close> is any character but the line feed, \<open>\d\<close> an ASCII digit and
  \<open>\s\<close> one of tab, line feed, form feed, carriage return and space. The functions below
  follow the pattern from right to left; each returns the text of the groups it covers.
\<close>

definition isDot :: "char \<Rightarrow> bool" where
  "isDot c = (c \<noteq> CHR 0x0A)"

definition isSpaceClass :: "char \<Rightarrow> bool" where
  "isSpaceClass c = (c \<in> set [CHR 0x09, CHR 0x0A, CHR 0x0C, CHR 0x0D, CHR 0x20])"

text \<open>\<^verbatim>\<open>(.+)$\<close>\<close>

definition matchRest :: "string \<Rightarrow> string option" where
  "matchRest s = (if s \<noteq> [] \<and> list_all isDot s then Some s else None)"

text \<open>\<^verbatim>\<open>\s*(.+)$\<close>: the longest run of white space first, then one character less.\<close>

fun matchMessage :: "string \<Rightarrow> string option" where
  "matchMessage [] = None"
| "matchMessage (c # cs) =
     (if isSpaceClass c then
        (case matchMessage cs of Some m \<Rightarrow> Some m | None \<Rightarrow> matchRest (c # cs))
      else matchRest (c # cs))"

text \<open>
  \<^verbatim>\<open>(\d+)\:\<close>: all the digits at the head, then a colon. Giving back a digit cannot
  help, since a digit would then stand where the colon must; so there is nothing to
  retry.
\<close>

definition matchNumber :: "string \<Rightarrow> (string \<times> string) option" where
  "matchNumber s =
     (let ds = takeWhile isDigit s; r = dropWhile isDigit s in
      if ds \<noteq> [] \<and> r \<noteq> [] \<and> hd r = CHR '':'' then Some (ds, tl r) else None)"

text \<open>\<^verbatim>\<open>\:(\d+)\:(\d+)\:\s*(.+)$\<close>\<close>

definition matchTail :: "string \<Rightarrow> (string \<times> string \<times> string) option" where
  "matchTail s =
     (case s of
        [] \<Rightarrow> None
      | c # cs \<Rightarrow>
          if c \<noteq> CHR '':'' then None
          else (case matchNumber cs of
                  None \<Rightarrow> None
                | Some (ln, r1) \<Rightarrow>
                    (case matchNumber r1 of
                       None \<Rightarrow> None
                     | Some (col, r2) \<Rightarrow>
                         (case matchMessage r2 of
                            None \<Rightarrow> None
                          | Some m \<Rightarrow> Some (ln, col, m)))))"

text \<open>
  \<^verbatim>\<open>^(.+)\<close> and the rest: \<open>pre\<close> is the part of the file name already taken. The
  longer file name is tried first.
\<close>

fun matchFile :: "string \<Rightarrow> string \<Rightarrow> (string \<times> string \<times> string \<times> string) option" where
  "matchFile pre [] = None"
| "matchFile pre (c # cs) =
     (if \<not> isDot c then None
      else (case matchFile (pre @ [c]) cs of
              Some r \<Rightarrow> Some r
            | None \<Rightarrow>
                (case matchTail cs of
                   Some (ln, col, m) \<Rightarrow> Some (pre @ [c], ln, col, m)
                 | None \<Rightarrow> None)))"

text \<open>
  \<open>errorPattern.FindStringSubmatch\<close>: the whole match and the four groups, or the empty
  list (Go's nil) when the line does not match.
\<close>

definition FindStringSubmatch :: "string \<Rightarrow> string list" where
  "FindStringSubmatch s =
     (case matchFile [] s of
        None \<Rightarrow> []
      | Some (file, ln, col, m) \<Rightarrow> [s, file, ln, col, m])"


definition knownTypes :: "string list" where
  "knownTypes =
     [''undefined'', ''cannot find package'', ''imported and not used'',
      ''declared but not used'', ''syntax error'', ''invalid operation'']"

definition splitErrorType :: "string \<Rightarrow> string \<times> string" where
  "splitErrorType msg =
     (let idx = Index msg (CHR '':'') in
      if idx > 0 \<and> take (nat idx) msg \<in> set knownTypes
      then (take (nat idx) msg, TrimSpace (drop (nat idx + 1) msg))
      else (''error'', msg))"

definition showSourceContext :: "string \<Rightarrow> int \<Rightarrow> event list" where
  "showSourceContext source errorLine =
     (let lines = Split source (CHR 0x0A) in
      if errorLine < 1 \<or> errorLine > int (length lines) then []
      else
        let start = (if errorLine - 2 < 0 then 0 else errorLine - 2);
            stop = (if errorLine + 1 > int (length lines) then int (length lines)
                    else errorLine + 1)
        in map (\<lambda>i. let num = i + 1 in
                      if num = errorLine then Marked num (lines ! nat i)
                      else Context num (lines ! nat i))
               [start .. stop - 1])"

text \<open>
  The body of the loop of \<open>parseGoErrors\<close> for one line: whether the line sets
  \<open>foundErrors\<close>, and what it prints.
\<close>

definition parseLine :: "string \<Rightarrow> string \<Rightarrow> bool \<times> event list" where
  "parseLine sourceCode raw =
     (let line = TrimSpace raw in
      if line = [] then (False, [])
      else
        let matches = FindStringSubmatch line in
        if length matches \<noteq> 5 then (False, [Plain line])
        else
          let file = matches ! 1;
              lineNum = Atoi (matches ! 2);
              col = matches ! 3;
              message = matches ! 4;
              (errType, description) = splitErrorType message
          in (True,
              [Title errType, FileLoc file, LineLoc lineNum, ColLoc col, Msg description]
              @ (if length sourceCode > 0 then showSourceContext sourceCode lineNum else [])
              @ [Blank]))"

definition parseGoErrors :: "string \<Rightarrow> string \<Rightarrow> event list" where
  "parseGoErrors rawOutput sourceCode =
     (let results = map (parseLine sourceCode) (Split rawOutput (CHR 0x0A));
          foundErrors = list_ex fst results
      in concat (map snd results) @ (if foundErrors then [Failed] else []))"


text \<open>The texts of the passthrough entries among what was printed, in order.\<close>

definition passthroughs :: "event list \<Rightarrow> string list" where
  "passthroughs es = concat (map (\<lambda>e. case e of Plain t \<Rightarrow> [t] | _ \<Rightarrow> []) es)"

section \<open>The environment: file system, clock and subprocesses\<close>

text \<open>
  The file system maps a path to what is there: a directory or a file with its content,
  each with its modification time (nanoseconds). Only the entries the program itself
  names are tracked. The world also records every call the program makes to the operating
  system, in order, and everything it prints.
\<close>

datatype node = Dir int | File string int

fun ModTime :: "node \<Rightarrow> int" where
  "ModTime (Dir t) = t"
| "ModTime (File c t) = t"

datatype action =
    Stat string
  | ReadFile string
  | MkdirAll string
  | WriteFile string string
  | MkdirTemp string
  | RemoveAll string
  | Chmod string
  | GoModTidy string
  | GoBuild string string
  | GoRun string
  | RunBinary string

record world =
  fs :: "string \<Rightarrow> node option"
  trace :: "action list"
  out :: "event list"

text \<open>
  What the program cannot decide by itself is a parameter: the platform
  (\<open>os.UserCacheDir\<close>, \<open>runtime.GOOS\<close>, \<open>runtime.Version\<close>), the clock, the SHA-256
  digest in hexadecimal, the RFC 3339 rendering of a time, standard input, and the outcome
  of every call that can fail: \<open>None\<close> (Go's nil error) is success. \<open>BuildResult\<close> is
  the outcome of \<open>go build\<close> in a directory: on failure, the process error and the text
  captured from its standard error. \<open>Artifact\<close> is the executable a successful build
  writes; nothing else of what the subprocesses do to the file system is recorded.
\<close>

record env =
  UserCacheDir :: "error + string"
  GOOS :: string
  Version :: string
  Now :: int
  Sum256Hex :: "string \<Rightarrow> string"
  FormatRFC3339 :: "int \<Rightarrow> string"
  Stdin :: "error + string"
  MkdirAllError :: "string \<Rightarrow> error option"
  WriteFileError :: "string \<Rightarrow> error option"
  MkdirTempResult :: "string \<Rightarrow> error + string"
  RemoveAllError :: "string \<Rightarrow> error option"
  ChmodError :: "string \<Rightarrow> error option"
  TidyError :: "string \<Rightarrow> error option"
  BuildResult :: "string \<Rightarrow> (error \<times> string) option"
  Artifact :: string
  GoRunError :: "string \<Rightarrow> error option"
  RunError :: "string \<Rightarrow> error option"

definition act :: "action \<Rightarrow> world \<Rightarrow> world" where
  "act a w = w\<lparr>trace := trace w @ [a]\<rparr>"

definition emit :: "event list \<Rightarrow> world \<Rightarrow> world" where
  "emit es w = w\<lparr>out := out w @ es\<rparr>"

text \<open>
  \<open>filepath.Join\<close>: the elements from the first non-empty one on are joined with the
  separator of the platform and the result is cleaned; with no non-empty element the
  result is empty. \<open>filepath.Clean\<close> is the lexical cleaning of the library: runs of
  separators collapse, \<open>.\<close> elements go, a \<open>..\<close> element removes the element before
  it (at the root it is dropped, at the head of a relative path it stays), no separator
  is left at the end, and an empty result is \<open>.\<close>. On Windows the separator is the
  backslash and a slash counts as one; the volume name of a Windows path (a drive letter,
  a UNC prefix) is treated as an ordinary first element.
\<close>

definition Separator :: "env \<Rightarrow> char" where
  "Separator e = (if GOOS e = ''windows'' then CHR 0x5C else CHR ''/'')"

fun joinWith :: "char \<Rightarrow> string list \<Rightarrow> string" where
  "joinWith sep [] = []"
| "joinWith sep [x] = x"
| "joinWith sep (x # y # ys) = x @ sep # joinWith sep (y # ys)"

fun cleanElems :: "bool \<Rightarrow> string list \<Rightarrow> string list \<Rightarrow> string list" where
  "cleanElems rooted acc [] = rev acc"
| "cleanElems rooted acc (x # xs) =
     (if x = [] \<or> x = ''.'' then cleanElems rooted acc xs
      else if x = ''..'' then
        (case acc of
           [] \<Rightarrow> if rooted then cleanElems rooted [] xs else cleanElems rooted [''..''] xs
         | a # as \<Rightarrow>
             if a = ''..'' then cleanElems rooted (''..'' # acc) xs
             else cleanElems rooted as xs)
      else cleanElems rooted (x # acc) xs)"

definition Clean :: "env \<Rightarrow> string \<Rightarrow> string" where
  "Clean e path =
     (if path = [] then ''.''
      else
        (let sep = Separator e;
             p = map (\<lambda>c. if GOOS e = ''windows'' \<and> c = CHR ''/'' then sep else c) path;
             rooted = (hd p = sep);
             body = joinWith sep (cleanElems rooted [] (Split p sep))
         in if rooted then sep # body else if body = [] then ''.'' else body))"

definition Join :: "env \<Rightarrow> string list \<Rightarrow> string" where
  "Join e elem =
     (case dropWhile (\<lambda>x. x = []) elem of
        [] \<Rightarrow> []
      | x # xs \<Rightarrow> Clean e (joinWith (Separator e) (x # xs)))"

text \<open>\<open>under d q\<close>: the path \<open>q\<close> is \<open>d\<close> itself or lies below it.\<close>

definition under :: "string \<Rightarrow> string \<Rightarrow> bool" where
  "under d q = (q = d \<or> take (length d + 1) q = d @ ''/'')"

definition os_Stat :: "string \<Rightarrow> world \<Rightarrow> world \<times> node option" where
  "os_Stat p w = (act (Stat p) w, fs w p)"

definition os_ReadFile :: "string \<Rightarrow> world \<Rightarrow> world \<times> (error + string)" where
  "os_ReadFile p w =
     (act (ReadFile p) w,
      case fs w p of Some (File c t) \<Rightarrow> Inr c | _ \<Rightarrow> Inl (PathError ''open'' p))"

text \<open>
  \<open>os.MkdirAll\<close>: the empty path names nothing and cannot be made, so the call fails
  on it whatever the environment; a path that is a directory is left alone, a path
  that is a file is an error.
\<close>

definition os_MkdirAll :: "env \<Rightarrow> string \<Rightarrow> world \<Rightarrow> world \<times> error option" where
  "os_MkdirAll e p w =
     (let w1 = act (MkdirAll p) w in
      if p = [] then (w1, Some (PathError ''mkdir'' p))
      else
        (case MkdirAllError e p of
           Some err \<Rightarrow> (w1, Some err)
         | None \<Rightarrow>
             (case fs w1 p of
                Some (Dir t) \<Rightarrow> (w1, None)
              | Some (File c t) \<Rightarrow> (w1, Some (PathError ''mkdir'' p))
              | None \<Rightarrow> (w1\<lparr>fs := (fs w1)(p \<mapsto> Dir (Now e))\<rparr>, None))))"

definition os_WriteFile :: "env \<Rightarrow> string \<Rightarrow> string \<Rightarrow> world \<Rightarrow> world \<times> error option" where
  "os_WriteFile e p content w =
     (let w1 = act (WriteFile p content) w in
      case WriteFileError e p of
        Some err \<Rightarrow> (w1, Some err)
      | None \<Rightarrow> (w1\<lparr>fs := (fs w1)(p \<mapsto> File content (Now e))\<rparr>, None))"

definition os_MkdirTemp :: "env \<Rightarrow> string \<Rightarrow> world \<Rightarrow> world \<times> (error + string)" where
  "os_MkdirTemp e pattern w =
     (let w1 = act (MkdirTemp pattern) w in
      case MkdirTempResult e pattern of
        Inl err \<Rightarrow> (w1, Inl err)
      | Inr d \<Rightarrow> (w1\<lparr>fs := (fs w1)(d \<mapsto> Dir (Now e))\<rparr>, Inr d))"

text \<open>
  \<open>os.RemoveAll\<close> removes the path and everything below it; the empty path is left
  alone, without error. A removal that fails is taken to remove nothing. The program
  discards the result everywhere but in \<open>clearAllCache\<close>.
\<close>

definition os_RemoveAll :: "env \<Rightarrow> string \<Rightarrow> world \<Rightarrow> world \<times> error option" where
  "os_RemoveAll e p w =
     (let w1 = act (RemoveAll p) w in
      if p = [] then (w1, None)
      else
        (case RemoveAllError e p of
           Some err \<Rightarrow> (w1, Some err)
         | None \<Rightarrow> (w1\<lparr>fs := (\<lambda>q. if under p q then None else fs w1 q)\<rparr>, None)))"

definition os_Chmod :: "env \<Rightarrow> string \<Rightarrow> world \<Rightarrow> world \<times> error option" where
  "os_Chmod e p w = (act (Chmod p) w, ChmodError e p)"

text \<open>
  \<open>time.Since\<close>: the clock minus the time, saturating at the bounds of a
  \<open>time.Duration\<close> (64 bits, nanoseconds).
\<close>

definition minDuration :: int where
  "minDuration = - (2 ^ 63)"

definition maxDuration :: int where
  "maxDuration = 2 ^ 63 - 1"

definition Since :: "env \<Rightarrow> int \<Rightarrow> int" where
  "Since e t =
     (let d = Now e - t in
      if d > maxDuration then maxDuration else if d < minDuration then minDuration else d)"

definition Hour :: int where
  "Hour = 3600000000000"

section \<open>Cache store, build orchestrator and execution runner\<close>

definition getCachePaths :: "env \<Rightarrow> string \<Rightarrow> string \<times> string" where
  "getCachePaths e code =
     (let hashStr = take 16 (Sum256Hex e code) in
      case UserCacheDir e of
        Inl err \<Rightarrow> ([], [])
      | Inr casheRoot \<Rightarrow>
          let dir = Join e [casheRoot, ''gogo'', hashStr];
              binName = (if GOOS e = ''windows'' then ''run.exe'' else ''run'');
              binaryPath = Join e [dir, binName]
          in (dir, binaryPath))"

definition clearAllCache :: "env \<Rightarrow> world \<Rightarrow> world \<times> error option" where
  "clearAllCache e w =
     (case UserCacheDir e of
        Inl err \<Rightarrow> (w, Some err)
      | Inr cacheRoot \<Rightarrow> os_RemoveAll e (Join e [cacheRoot, ''gogo'']) w)"

definition createModule :: "env \<Rightarrow> string \<Rightarrow> string \<Rightarrow> world \<Rightarrow> world \<times> error option" where
  "createModule e dir code w =
     (let goVersion = TrimPrefix (Version e) ''go'';
          parts = Split goVersion (CHR ''.'');
          goVersion = (if length parts \<ge> 2 then parts ! 0 @ ''.'' @ parts ! 1 else goVersion);
          modContent = ''module gogo-main'' @ [CHR 0x0A, CHR 0x0A] @ ''go '' @ goVersion
                         @ [CHR 0x0A]
      in case os_WriteFile e (Join e [dir, ''go.mod'']) modContent w of
           (w1, Some err) \<Rightarrow> (w1, Some err)
         | (w1, None) \<Rightarrow> os_WriteFile e (Join e [dir, ''main.go'']) code w1)"

definition buildWith :: "env \<Rightarrow> string \<Rightarrow> string \<Rightarrow> string \<Rightarrow> world \<Rightarrow> world \<times> error option" where
  "buildWith e tmpDir binaryPath sourceCode w =
     (let w1 = act (GoBuild tmpDir binaryPath) w in
      case BuildResult e tmpDir of
        Some (err, output) \<Rightarrow>
          if output = [] then (w1, Some (BuildFailed err))
          else (emit (parseGoErrors output sourceCode) w1, Some CompilationFailed)
      | None \<Rightarrow> (w1\<lparr>fs := (fs w1)(binaryPath \<mapsto> File (Artifact e) (Now e))\<rparr>, None))"

definition runBinary :: "env \<Rightarrow> string \<Rightarrow> world \<Rightarrow> world \<times> error option" where
  "runBinary e path w = (act (RunBinary path) w, RunError e path)"

text \<open>
  The lookup at the head of \<open>runCached\<close>: \<open>os.Stat\<close> reports no error and the
  modification time is less than three days back.
\<close>

definition cacheHit :: "env \<Rightarrow> node option \<Rightarrow> bool" where
  "cacheHit e st =
     (case st of
        Some info \<Rightarrow> Since e (ModTime info) < 3 * 24 * Hour
      | None \<Rightarrow> False)"

text \<open>
  \<open>runCached\<close> from the creation of the workspace on: everything the deferred
  \<open>os.RemoveAll(tmpDir)\<close> follows.
\<close>

definition buildInto ::
  "env \<Rightarrow> string \<Rightarrow> string \<Rightarrow> string \<Rightarrow> string \<Rightarrow> world \<Rightarrow> world \<times> error option" where
  "buildInto e code cacheDir binaryPath tmpDir w =
     (case createModule e tmpDir code w of
        (w1, Some err) \<Rightarrow> (w1, Some err)
      | (w1, None) \<Rightarrow>
          let w2 = emit [Notice ''First run: downloading dependencies...'']
                     (act (GoModTidy tmpDir) w1)
          in case TidyError e tmpDir of
               Some err \<Rightarrow> (w2, Some (TidyFailed err))
             | None \<Rightarrow>
                 (case buildWith e tmpDir binaryPath code (emit [Notice ''Building...''] w2) of
                    (w3, Some err) \<Rightarrow> (fst (os_RemoveAll e cacheDir w3), Some err)
                  | (w3, None) \<Rightarrow>
                      let w4 = (if GOOS e \<noteq> ''windows'' then fst (os_Chmod e binaryPath w3)
                                else w3);
                          meta = ''Built: '' @ FormatRFC3339 e (Now e) @ [CHR 0x0A]
                                   @ ''Go: '' @ Version e @ [CHR 0x0A];
                          w5 = fst (os_WriteFile e (Join e [cacheDir, ''meta.txt'']) meta w4)
                      in runBinary e binaryPath w5))"

definition runCached :: "env \<Rightarrow> string \<Rightarrow> world \<Rightarrow> world \<times> error option" where
  "runCached e code w =
     (let (cacheDir, binaryPath) = getCachePaths e code;
          (w1, st) = os_Stat binaryPath w
      in if cacheHit e st then runBinary e binaryPath (emit [Notice ''Using cached binary''] w1)
         else
           (case os_MkdirAll e cacheDir w1 of
              (w2, Some err) \<Rightarrow> (w2, Some err)
            | (w2, None) \<Rightarrow>
                (case os_WriteFile e (Join e [cacheDir, ''main.go'']) code w2 of
                   (w3, Some err) \<Rightarrow> (w3, Some err)
                 | (w3, None) \<Rightarrow>
                     (case os_MkdirTemp e ''gogo-build-*'' w3 of
                        (w4, Inl err) \<Rightarrow> (w4, Some err)
                      | (w4, Inr tmpDir) \<Rightarrow>
                          (case buildInto e code cacheDir binaryPath tmpDir w4 of
                             (w5, r) \<Rightarrow> (fst (os_RemoveAll e tmpDir w5), r))))))"

text \<open>\<open>runOnce\<close> after the creation of its workspace.\<close>

definition runInto :: "env \<Rightarrow> string \<Rightarrow> string \<Rightarrow> world \<Rightarrow> world \<times> error option" where
  "runInto e code tmpDir w =
     (case createModule e tmpDir code w of
        (w1, Some err) \<Rightarrow> (w1, Some err)
      | (w1, None) \<Rightarrow>
          let w2 = emit [Stderr ''Checking dependencies...''] (act (GoModTidy tmpDir) w1)
          in case TidyError e tmpDir of
               Some err \<Rightarrow> (w2, Some (TidyFailed err))
             | None \<Rightarrow>
                 (act (GoRun tmpDir) (emit [Stderr ''Running without cache...''] w2),
                  GoRunError e tmpDir))"

definition runOnce :: "env \<Rightarrow> string \<Rightarrow> world \<Rightarrow> world \<times> error option" where
  "runOnce e code w =
     (case os_MkdirTemp e ''gogo-once-*'' w of
        (w1, Inl err) \<Rightarrow> (w1, Some err)
      | (w1, Inr tmpDir) \<Rightarrow>
          (case runInto e code tmpDir w1 of
             (w2, r) \<Rightarrow> (fst (os_RemoveAll e tmpDir w2), r)))"

section \<open>The command\<close>

record flags =
  noCache :: bool
  clearCache :: bool
  showVersion :: bool
  arg0 :: string

definition readInput :: "env \<Rightarrow> string \<Rightarrow> world \<Rightarrow> world \<times> (error + string)" where
  "readInput e filename w = (if filename \<noteq> [] then os_ReadFile filename w else (w, Stdin e))"

definition usage :: "event list" where
  "usage =
     [Stderr ''Usage: echo 'code' | gogo'',
      Stderr ''       gogo file.go'',
      Stderr ''Flags: -once (no cache), -clear (clean cache), -version'']"

text \<open>
  \<open>main\<close> returns the exit status with the world. \<open>e\<close> is the environment up to the end
  of the first run, \<open>e'\<close> the environment of the second.
\<close>

definition main :: "env \<Rightarrow> env \<Rightarrow> flags \<Rightarrow> world \<Rightarrow> world \<times> int" where
  "main e e' fl w =
     (if showVersion fl then (emit [Stdout ''gogo v0.1.0''] w, 0)
      else if clearCache fl then
        (case clearAllCache e w of
           (w1, Some err) \<Rightarrow> (emit [StderrError ''Failed to clear cache: '' err] w1, 1)
         | (w1, None) \<Rightarrow> (emit [Stdout ''Cache cleared!''] w1, 0))
      else
        (case readInput e (arg0 fl) w of
           (w1, Inl err) \<Rightarrow> (emit [StderrError ''Read error: '' err] w1, 1)
         | (w1, Inr code) \<Rightarrow>
             (case (if noCache fl then runOnce e code w1 else runCached e code w1) of
                (w2, Some err) \<Rightarrow> (emit [StderrError ''Error: '' err] w2, 1)
              | (w2, None) \<Rightarrow>
                  if length code = 0 then (emit usage w2, 1)
                  else
                    (case validateCode code of
                       Some err \<Rightarrow> (emit [StderrError ''Error validation: '' err] w2, 1)
                     | None \<Rightarrow>
                         (case stripShebang code of
                            (code', Some err) \<Rightarrow>
                              (emit [StderrError ''Error shebang: '' err] w2, 1)
                          | (code', None) \<Rightarrow>
                              (case (if noCache fl then runOnce e' code' w2
                                     else runCached e' code' w2) of
                                 (w3, Some err) \<Rightarrow> (emit [StderrError ''Error: '' err] w3, 1)
                               | (w3, None) \<Rightarrow> (w3, 0)))))))"

section \<open>The first version of the command\<close>

text \<open>
  \<open>src/cmd/main.go\<close> is the command before the cache: it has no flags, its
  \<open>validateCode\<close> and \<open>stripShebang\<close> are those above, letter for letter, and it checks
  the input before it builds anything. Its messages are Russian; they are given by
  their UTF-8 bytes.
\<close>

definition readErrorText :: string where
  "readErrorText =
     [CHR 0xD0, CHR 0x9E, CHR 0xD1, CHR 0x88, CHR 0xD0, CHR 0xB8, CHR 0xD0, CHR 0xB1,
     CHR 0xD0, CHR 0xBA, CHR 0xD0, CHR 0xB0] @ '' '' @ [CHR 0xD1, CHR 0x87, CHR 0xD1,
     CHR 0x82, CHR 0xD0, CHR 0xB5, CHR 0xD0, CHR 0xBD, CHR 0xD0, CHR 0xB8, CHR 0xD1,
     CHR 0x8F] @ '': ''"

definition gorunUsageText :: string where
  "gorunUsageText =
     [CHR 0xD0, CHR 0x98, CHR 0xD1, CHR 0x81, CHR 0xD0, CHR 0xBF, CHR 0xD0, CHR 0xBE,
     CHR 0xD0, CHR 0xBB, CHR 0xD1, CHR 0x8C, CHR 0xD0, CHR 0xB7, CHR 0xD0, CHR 0xBE,
     CHR 0xD0, CHR 0xB2, CHR 0xD0, CHR 0xB0, CHR 0xD0, CHR 0xBD, CHR 0xD0, CHR 0xB8,
     CHR 0xD0, CHR 0xB5] @ '': echo '' @ [CHR 0x27, CHR 0xD0, CHR 0xBA, CHR 0xD0,
     CHR 0xBE, CHR 0xD0, CHR 0xB4, CHR 0x27] @ '' | gorun''"

definition gorunExampleText :: string where
  "gorunExampleText =
     [CHR 0xD0, CHR 0x9F, CHR 0xD1, CHR 0x80, CHR 0xD0, CHR 0xB8, CHR 0xD0, CHR 0xBC,
     CHR 0xD0, CHR 0xB5, CHR 0xD1, CHR 0x80] @ '': echo '' @ [CHR 0x27]
     @ ''package main; import '' @ [CHR 0x22] @ ''fmt'' @ [CHR 0x22]
     @ ''; func main() { fmt.Println('' @ [CHR 0x22] @ ''Hello'' @ [CHR 0x22] @ '') }''
     @ [CHR 0x27] @ '' | gorun''"

definition validationErrorText :: string where
  "validationErrorText =
     [CHR 0xD0, CHR 0x9E, CHR 0xD1, CHR 0x88, CHR 0xD0, CHR 0xB8, CHR 0xD0, CHR 0xB1,
     CHR 0xD0, CHR 0xBA, CHR 0xD0, CHR 0xB0] @ '' '' @ [CHR 0xD0, CHR 0xB2, CHR 0xD0,
     CHR 0xB0, CHR 0xD0, CHR 0xBB, CHR 0xD0, CHR 0xB8, CHR 0xD0, CHR 0xB4, CHR 0xD0,
     CHR 0xB0, CHR 0xD1, CHR 0x86, CHR 0xD0, CHR 0xB8, CHR 0xD0, CHR 0xB8] @ '': ''"

definition receivedText1 :: string where
  "receivedText1 =
     [CHR 0xD0, CHR 0x9F, CHR 0xD0, CHR 0xBE, CHR 0xD0, CHR 0xBB, CHR 0xD1, CHR 0x83,
     CHR 0xD1, CHR 0x87, CHR 0xD0, CHR 0xB5, CHR 0xD0, CHR 0xBD] @ '' '' @ [CHR 0xD0,
     CHR 0xBA, CHR 0xD0, CHR 0xBE, CHR 0xD0, CHR 0xB4] @ '' (''"

definition receivedText2 :: string where
  "receivedText2 =
     '' '' @ [CHR 0xD0, CHR 0xB1, CHR 0xD0, CHR 0xB0, CHR 0xD0, CHR 0xB9, CHR 0xD1,
     CHR 0x82] @ ''):''"

definition preparingText :: string where
  "preparingText =
     [CHR 0xF0, CHR 0x9F, CHR 0x93, CHR 0xA6] @ '' '' @ [CHR 0xD0, CHR 0x9F, CHR 0xD0,
     CHR 0xBE, CHR 0xD0, CHR 0xB4, CHR 0xD0, CHR 0xB3, CHR 0xD0, CHR 0xBE, CHR 0xD1,
     CHR 0x82, CHR 0xD0, CHR 0xBE, CHR 0xD0, CHR 0xB2, CHR 0xD0, CHR 0xBA, CHR 0xD0,
     CHR 0xB0] @ '' '' @ [CHR 0xD0, CHR 0xBC, CHR 0xD0, CHR 0xBE, CHR 0xD0, CHR 0xB4,
     CHR 0xD1, CHR 0x83, CHR 0xD0, CHR 0xBB, CHR 0xD0, CHR 0xB5, CHR 0xD0, CHR 0xB9]
     @ ''...''"

definition compilingText :: string where
  "compilingText =
     [CHR 0xD0, CHR 0x9A, CHR 0xD0, CHR 0xBE, CHR 0xD0, CHR 0xBC, CHR 0xD0, CHR 0xBF,
     CHR 0xD0, CHR 0xB8, CHR 0xD0, CHR 0xBB, CHR 0xD1, CHR 0x8F, CHR 0xD1, CHR 0x86,
     CHR 0xD0, CHR 0xB8, CHR 0xD1, CHR 0x8F] @ '' '' @ [CHR 0xD0, CHR 0xB8] @ '' ''
     @ [CHR 0xD0, CHR 0xB7, CHR 0xD0, CHR 0xB0, CHR 0xD0, CHR 0xBF, CHR 0xD1, CHR 0x83,
     CHR 0xD1, CHR 0x81, CHR 0xD0, CHR 0xBA] @ ''...''"

definition doneText :: string where
  "doneText =
     [CHR 0x0A, CHR 0xD0, CHR 0x92, CHR 0xD1, CHR 0x8B, CHR 0xD0, CHR 0xBF, CHR 0xD0,
     CHR 0xBE, CHR 0xD0, CHR 0xBB, CHR 0xD0, CHR 0xBD, CHR 0xD0, CHR 0xB5, CHR 0xD0,
     CHR 0xBD, CHR 0xD0, CHR 0xBE] @ '' '' @ [CHR 0xD1, CHR 0x83, CHR 0xD1, CHR 0x81,
     CHR 0xD0, CHR 0xBF, CHR 0xD0, CHR 0xB5, CHR 0xD1, CHR 0x88, CHR 0xD0, CHR 0xBD,
     CHR 0xD0, CHR 0xBE] @ ''!''"

definition ruleText :: string where
  "ruleText = concat (replicate 20 [CHR 0xE2, CHR 0x94, CHR 0x80])"

text \<open>\<open>%d\<close> of a length.\<close>

fun decimal :: "nat \<Rightarrow> string" where
  "decimal n =
     (if n < 10 then [char_of (48 + n)]
      else decimal (n div 10) @ [char_of (48 + n mod 10)])"

declare decimal.simps [simp del]

text \<open>\<open>readInput\<close> of this file: \<open>args\<close> is \<open>os.Args\<close> without the program name.\<close>

definition readInputArgs :: "env \<Rightarrow> string list \<Rightarrow> world \<Rightarrow> world \<times> (error + string)" where
  "readInputArgs e args w =
     (case args of
        [] \<Rightarrow> (w, Stdin e)
      | a # rest \<Rightarrow> os_ReadFile a w)"

text \<open>\<open>runWithGoModule\<close> after the creation of its workspace.\<close>

definition runModuleIn :: "env \<Rightarrow> string \<Rightarrow> string \<Rightarrow> world \<Rightarrow> world \<times> error option" where
  "runModuleIn e code tmpDir w =
     (let goVersion = TrimPrefix (Version e) ''go'';
          parts = Split goVersion (CHR ''.'');
          goVersion = (if length parts \<ge> 2 then parts ! 0 @ ''.'' @ parts ! 1 else goVersion);
          modContent = ''module gorun-main'' @ [CHR 0x0A, CHR 0x0A] @ ''go '' @ goVersion
                         @ [CHR 0x0A]
      in case os_WriteFile e (Join e [tmpDir, ''go.mod'']) modContent w of
           (w1, Some err) \<Rightarrow> (w1, Some (Wrapped ''failed to create go.mod'' err))
         | (w1, None) \<Rightarrow>
             (case os_WriteFile e (Join e [tmpDir, ''main.go'']) code w1 of
                (w2, Some err) \<Rightarrow> (w2, Some (Wrapped ''failed to write in main.go'' err))
              | (w2, None) \<Rightarrow>
                  let w3 = emit [Stderr preparingText] (act (GoModTidy tmpDir) w2)
                  in case TidyError e tmpDir of
                       Some err \<Rightarrow> (w3, Some (Wrapped ''failed to tidy modules'' err))
                     | None \<Rightarrow>
                         let w4 = act (GoRun tmpDir) (emit [Stderr compilingText] w3)
                         in case GoRunError e tmpDir of
                              Some err \<Rightarrow> (w4, Some (Wrapped ''failed to run'' err))
                            | None \<Rightarrow> (w4, None)))"

definition runWithGoModule :: "env \<Rightarrow> string \<Rightarrow> world \<Rightarrow> world \<times> error option" where
  "runWithGoModule e code w =
     (case os_MkdirTemp e ''gogo-*'' w of
        (w1, Inl err) \<Rightarrow> (w1, Some (Wrapped ''failed to create directory'' err))
      | (w1, Inr tmpDir) \<Rightarrow>
          (case runModuleIn e code tmpDir w1 of
             (w2, r) \<Rightarrow> (fst (os_RemoveAll e tmpDir w2), r)))"

text \<open>\<open>main\<close> of this file, with the exit status.\<close>

definition gorunMain :: "env \<Rightarrow> string list \<Rightarrow> world \<Rightarrow> world \<times> int" where
  "gorunMain e args w =
     (case readInputArgs e args w of
        (w1, Inl err) \<Rightarrow> (emit [StderrError readErrorText err] w1, 1)
      | (w1, Inr code) \<Rightarrow>
          if length code = 0 then (emit [Stdout gorunUsageText, Stdout gorunExampleText] w1, 0)
          else
            (case validateCode code of
               Some err \<Rightarrow> (emit [StderrError validationErrorText err] w1, 1)
             | None \<Rightarrow>
                 (case stripShebang code of
                    (code', Some err) \<Rightarrow> (emit [StderrError ''error: '' err] w1, 1)
                  | (code', None) \<Rightarrow>
                      let w2 = emit [Stdout (receivedText1 @ decimal (length code')
                                               @ receivedText2),
                                     Stdout ruleText, Stdout code'] w1
                      in case runWithGoModule e code' w2 of
                           (w3, Some err) \<Rightarrow> (emit [StderrError ''error: '' err] w3, 1)
                         | (w3, None) \<Rightarrow> (emit [Stderr doneText] w3, 0))))"

section \<open>An example environment\<close>

text \<open>
  A Linux machine at time \<open>1000\<close> on which every call succeeds; the digests are the
  SHA-256 digests of the three sources used below (any other source gets the digest of
  the empty one). The witnesses and the evaluations below vary it field by field.
\<close>

definition emptySource :: string where
  "emptySource = []"

definition bareSource :: string where
  "bareSource = ''func main() {}''"

definition helloSource :: string where
  "helloSource = ''package main'' @ [CHR 0x0A, CHR 0x0A] @ ''func main() {}'' @ [CHR 0x0A]"

definition exampleEnv :: env where
  "exampleEnv =
     \<lparr> UserCacheDir = Inr ''/home/u/.cache'',
       GOOS = ''linux'',
       Version = ''go1.21.5'',
       Now = 1000,
       Sum256Hex = (\<lambda>c.
         if c = bareSource
         then ''0d21deacf3eff16f64e4ec1c5eb3694137a724bb0b9c0605d1a9658345baa4e0''
         else if c = helloSource
         then ''55a60bb97151b2b4b680462447ce60ec34511b14fa10d77440c97b9777101566''
         else ''e3b0c44298fc1c149afbf4c8996fb92427ae41e4649b934ca495991b7852b855''),
       FormatRFC3339 = (\<lambda>t. ''1970-01-01T00:00:00Z''),
       Stdin = Inr [],
       MkdirAllError = (\<lambda>p. None),
       WriteFileError = (\<lambda>p. None),
       MkdirTempResult = (\<lambda>p. Inr ''/tmp/gogo-build-1''),
       RemoveAllError = (\<lambda>p. None),
       ChmodError = (\<lambda>p. None),
       TidyError = (\<lambda>d. None),
       BuildResult = (\<lambda>d. None),
       Artifact = ''ELF'',
       GoRunError = (\<lambda>d. None),
       RunError = (\<lambda>p. None) \<rparr>"

definition emptyWorld :: world where
  "emptyWorld = \<lparr> fs = (\<lambda>p. None), trace = [], out = [] \<rparr>"

definition noFlags :: flags where
  "noFlags = \<lparr> noCache = False, clearCache = False, showVersion = False, arg0 = [] \<rparr>"

text \<open>
  Variations: a \<open>go mod tidy\<close> that fails, a compiler that fails with diagnostics, a
  write that fails at one path, a given standard input.
\<close>

definition failingTidy :: "env \<Rightarrow> env" where
  "failingTidy e = e\<lparr>TidyError := (\<lambda>d. Some (ExitError ''exit status 1''))\<rparr>"

definition failingBuild :: "env \<Rightarrow> env" where
  "failingBuild e =
     e\<lparr>BuildResult :=
         (\<lambda>d. Some (ExitError ''exit status 1'', ''./main.go:3:1: syntax error: unexpected }''))\<rparr>"

definition failingWriteAt :: "string \<Rightarrow> env \<Rightarrow> env" where
  "failingWriteAt path e =
     e\<lparr>WriteFileError := (\<lambda>p. if p = path then Some (PathError ''open'' p) else None)\<rparr>"

definition withStdin :: "string \<Rightarrow> env \<Rightarrow> env" where
  "withStdin s e = e\<lparr>Stdin := Inr s\<rparr>"

text \<open>
  What is observed of a run: the calls made, what was printed, the result, and what the
  file system holds at the given paths.
\<close>

definition observe ::
  "string list \<Rightarrow> world \<times> 'a \<Rightarrow> action list \<times> event list \<times> 'a \<times> node option list" where
  "observe paths wr = (case wr of (w, r) \<Rightarrow> (trace w, out w, r, map (fs w) paths))"

section \<open>Facts about the operations\<close>


lemma trace_act [simp]: "trace (act a w) = trace w @ [a]"
  by (simp add: act_def)

lemma fs_act [simp]: "fs (act a w) = fs w"
  by (simp add: act_def)

lemma out_act [simp]: "out (act a w) = out w"
  by (simp add: act_def)

lemma trace_emit [simp]: "trace (emit es w) = trace w"
  by (simp add: emit_def)

lemma fs_emit [simp]: "fs (emit es w) = fs w"
  by (simp add: emit_def)

lemma out_emit [simp]: "out (emit es w) = out w @ es"
  by (simp add: emit_def)

lemma MkdirAll_trace: "os_MkdirAll e p w = (w', r) \<Longrightarrow> trace w' = trace w @ [MkdirAll p]"
  by (auto simp add: os_MkdirAll_def Let_def split: option.splits node.splits if_splits)

lemma MkdirAll_ok:
  assumes "MkdirAllError e p = None" and "\<forall>c t. fs w p \<noteq> Some (File c t)"
    and "os_MkdirAll e p w = (w', r)" and "p \<noteq> []"
  shows "r = None"
  using assms by (auto simp add: os_MkdirAll_def Let_def split: option.splits node.splits)

lemma MkdirAll_empty: "os_MkdirAll e [] w = (act (MkdirAll []) w, Some (PathError ''mkdir'' []))"
  by (simp add: os_MkdirAll_def Let_def)

lemma WriteFile_trace:
  "os_WriteFile e p c w = (w', r) \<Longrightarrow> trace w' = trace w @ [WriteFile p c]"
  by (auto simp add: os_WriteFile_def Let_def split: option.splits)

lemma WriteFile_trace_fst [simp]:
  "trace (fst (os_WriteFile e p c w)) = trace w @ [WriteFile p c]"
  by (cases "os_WriteFile e p c w") (auto dest: WriteFile_trace)

lemma WriteFile_ok: "WriteFileError e p = None \<Longrightarrow> os_WriteFile e p c w = (w', r) \<Longrightarrow> r = None"
  by (auto simp add: os_WriteFile_def Let_def split: option.splits)

lemma MkdirTemp_trace:
  "os_MkdirTemp e p w = (w', r) \<Longrightarrow> trace w' = trace w @ [MkdirTemp p]"
  by (auto simp add: os_MkdirTemp_def Let_def split: sum.splits)

lemma MkdirTemp_result: "os_MkdirTemp e p w = (w', r) \<Longrightarrow> r = MkdirTempResult e p"
  by (auto simp add: os_MkdirTemp_def Let_def split: sum.splits)

lemma RemoveAll_trace [simp]: "trace (fst (os_RemoveAll e p w)) = trace w @ [RemoveAll p]"
  by (simp add: os_RemoveAll_def Let_def split: option.splits)

lemma RemoveAll_gone:
  "p \<noteq> [] \<Longrightarrow> RemoveAllError e p = None \<Longrightarrow> under p q \<Longrightarrow>
     fs (fst (os_RemoveAll e p w)) q = None"
  by (simp add: os_RemoveAll_def Let_def)

lemma Chmod_trace [simp]: "trace (fst (os_Chmod e p w)) = trace w @ [Chmod p]"
  by (simp add: os_Chmod_def)

lemma runBinary_trace: "runBinary e p w = (w', r) \<Longrightarrow> trace w' = trace w @ [RunBinary p]"
  by (auto simp add: runBinary_def)

lemma runBinary_result: "runBinary e p w = (w', r) \<Longrightarrow> r = RunError e p"
  by (auto simp add: runBinary_def)

lemma buildWith_trace: "buildWith e t b c w = (w', r) \<Longrightarrow> trace w' = trace w @ [GoBuild t b]"
  by (auto simp add: buildWith_def Let_def split: option.splits prod.splits if_splits)

lemma buildWith_ok: "BuildResult e t = None \<Longrightarrow> buildWith e t b c w = (w', r) \<Longrightarrow> r = None"
  by (auto simp add: buildWith_def Let_def)

lemma createModule_trace:
  "createModule e d c w = (w', r) \<Longrightarrow> \<exists>rest. trace w' = trace w @ rest"
  unfolding createModule_def Let_def
  by (auto split: option.splits prod.splits dest!: WriteFile_trace)

lemma createModule_ok:
  "\<forall>p. WriteFileError e p = None \<Longrightarrow> createModule e d c w = (w', r) \<Longrightarrow> r = None"
  unfolding createModule_def Let_def
  by (auto split: option.splits prod.splits dest: WriteFile_ok)

lemma buildInto_trace:
  "buildInto e c d b t w = (w', r) \<Longrightarrow> \<exists>rest. trace w' = trace w @ rest"
  unfolding buildInto_def Let_def
  by (auto split: option.splits prod.splits if_splits
        dest!: createModule_trace buildWith_trace runBinary_trace)

lemma buildInto_ok:
  assumes "\<forall>p. WriteFileError e p = None" and "TidyError e t = None"
    and "BuildResult e t = None" and "buildInto e c d b t w = (w', r)"
  shows "r = RunError e b \<and> GoBuild t b \<in> set (trace w') \<and> RunBinary b \<in> set (trace w')"
proof -
  obtain w1 r1 where cm: "createModule e t c w = (w1, r1)"
    by (cases "createModule e t c w")
  with assms(1) have r1: "r1 = None" by (simp add: createModule_ok)
  obtain w3 r3 where bw:
    "buildWith e t b c
       (emit [Notice ''Building...'']
          (emit [Notice ''First run: downloading dependencies...''] (act (GoModTidy t) w1)))
     = (w3, r3)"
    by (cases "buildWith e t b c
       (emit [Notice ''Building...'']
          (emit [Notice ''First run: downloading dependencies...''] (act (GoModTidy t) w1)))")
  with assms(3) have r3: "r3 = None" by (simp add: buildWith_ok)
  have t3: "GoBuild t b \<in> set (trace w3)"
    using buildWith_trace [OF bw] by simp
  from assms(4) cm r1 bw r3 assms(2) t3 show ?thesis
    unfolding buildInto_def Let_def
    by (auto simp add: runBinary_def)
qed

lemma runInto_trace:
  "runInto e c t w = (w', r) \<Longrightarrow> \<exists>rest. trace w' = trace w @ rest"
  unfolding runInto_def Let_def
  by (auto split: option.splits prod.splits if_splits dest!: createModule_trace)

section \<open>Evaluation in the example environment\<close>

text \<open>The equations that evaluate the functions on concrete inputs.\<close>

lemmas example_defs = exampleEnv_def emptyWorld_def helloSource_def bareSource_def
  emptySource_def noFlags_def failingTidy_def failingBuild_def failingWriteAt_def
  withStdin_def usage_def

lemmas string_defs = TrimSpace_def trimLeft.simps spaceRunes_def HasPrefix_def TrimPrefix_def
  scanLines_def dropCR_def maxScanTokenSize_def validateCode_def Let_def

lemmas run_defs = main_def gorunMain_def readInputArgs_def readInput_def runCached_def
  runOnce_def buildInto_def runInto_def createModule_def buildWith_def runBinary_def os_Stat_def os_MkdirAll_def os_WriteFile_def
  os_MkdirTemp_def os_RemoveAll_def os_Chmod_def getCachePaths_def cacheHit_def Join_def
  Clean_def Separator_def
  under_def TrimPrefix_def HasPrefix_def act_def emit_def Let_def Since_def Hour_def
  maxDuration_def minDuration_def observe_def

lemmas parse_defs = parseGoErrors_def parseLine_def FindStringSubmatch_def matchTail_def
  matchNumber_def matchRest_def isDot_def isDigit_def isSpaceClass_def splitErrorType_def
  Index_def knownTypes_def Atoi_def digitsValue_def maxInt_def showSourceContext_def

lemma helloSource_not_bare: "helloSource \<noteq> bareSource"
  by (simp add: helloSource_def bareSource_def)

lemma validateCode_bareSource: "validateCode bareSource = Some MissingPackage"
  by (simp add: string_defs bareSource_def)

lemma validateCode_helloSource: "validateCode helloSource = None"
  by (simp add: string_defs helloSource_def)

section \<open>Normalization: stripping the directive line\<close>

lemma stripShebang_noop:
  "take 2 code \<noteq> ''#!'' \<Longrightarrow> stripShebang code = (code, None)"
proof -
  assume a: "take 2 code \<noteq> ''#!''"
  have "\<not> (length code > 2 \<and> code ! 0 = CHR ''#'' \<and> code ! 1 = CHR ''!'')"
  proof
    assume b: "length code > 2 \<and> code ! 0 = CHR ''#'' \<and> code ! 1 = CHR ''!''"
    then obtain x y zs where c: "code = x # y # zs"
      by (cases code; cases "tl code") auto
    with b a show False by simp
  qed
  then show ?thesis unfolding stripShebang_def by (rule if_not_P)
qed

lemma afterNewline_shorter: "afterNewline s = Some r \<Longrightarrow> length r < length s"
  by (induction s) (auto split: if_splits)

lemma stripShebang_directive:
  assumes "length y > 2" and "take 2 y = ''#!''"
  shows "stripShebang y \<noteq> (y, None)"
proof -
  from assms obtain zs where y: "y = CHR ''#'' # CHR ''!'' # zs"
    by (cases y; cases "tl y") auto
  show ?thesis
  proof (cases "afterNewline zs")
    case None
    with y assms show ?thesis by (simp add: stripShebang_def)
  next
    case (Some r)
    then have "length r < length zs" by (rule afterNewline_shorter)
    with y Some assms show ?thesis by (auto simp add: stripShebang_def)
  qed
qed

text \<open>
  C7. \<open>stripShebang\<close> returns its input unchanged, with no error, for every input
  that does not start with the two bytes \<open>#!\<close>. Applied to its own output \<open>y\<close> it
  returns \<open>y\<close> again exactly when \<open>y\<close> is not itself a buffer of more than two bytes
  that starts with \<open>#!\<close>: a second directive line is stripped (or rejected) by the second
  application.
\<close>

theorem stripShebang_noop_and_restrip:
  "(take 2 code \<noteq> ''#!'' \<longrightarrow> stripShebang code = (code, None)) \<and>
   (stripShebang code = (y, None) \<longrightarrow>
      (stripShebang y = (y, None) \<longleftrightarrow> \<not> (length y > 2 \<and> take 2 y = ''#!'')))"
proof (intro conjI impI)
  assume "take 2 code \<noteq> ''#!''"
  then show "stripShebang code = (code, None)" by (rule stripShebang_noop)
next
  assume "stripShebang code = (y, None)"
  show "stripShebang y = (y, None) \<longleftrightarrow> \<not> (length y > 2 \<and> take 2 y = ''#!'')"
  proof
    assume s: "stripShebang y = (y, None)"
    show "\<not> (length y > 2 \<and> take 2 y = ''#!'')"
    proof
      assume "length y > 2 \<and> take 2 y = ''#!''"
      then have "stripShebang y \<noteq> (y, None)" by (simp add: stripShebang_directive)
      with s show False by simp
    qed
  next
    assume n: "\<not> (length y > 2 \<and> take 2 y = ''#!'')"
    show "stripShebang y = (y, None)"
    proof (cases "take 2 y = ''#!''")
      case False
      then show ?thesis by (rule stripShebang_noop)
    next
      case True
      with n have "\<not> length y > 2" by simp
      then show ?thesis by (simp add: stripShebang_def)
    qed
  qed
qed

theorem stripShebang_noop_and_restrip_witness:
  "take 2 ''package main'' \<noteq> ''#!'' \<and>
   stripShebang ''package main'' = (''package main'', None) \<and>
   stripShebang (''#!a'' @ [CHR 0x0A] @ ''package main'') = (''package main'', None) \<and>
   stripShebang (''#!a'' @ [CHR 0x0A] @ ''#!b'' @ [CHR 0x0A] @ ''c'')
     = (''#!b'' @ [CHR 0x0A] @ ''c'', None) \<and>
   length (''#!b'' @ [CHR 0x0A] @ ''c'') > 2 \<and>
   take 2 (''#!b'' @ [CHR 0x0A] @ ''c'') = ''#!'' \<and>
   stripShebang (''#!b'' @ [CHR 0x0A] @ ''c'') \<noteq> (''#!b'' @ [CHR 0x0A] @ ''c'', None)"
  using stripShebang_noop_and_restrip [of "''package main''" "''package main''"]
    stripShebang_noop_and_restrip
      [of "''#!a'' @ [CHR 0x0A] @ ''package main''" "''package main''"]
    stripShebang_noop_and_restrip
      [of "''#!a'' @ [CHR 0x0A] @ ''#!b'' @ [CHR 0x0A] @ ''c''" "''#!b'' @ [CHR 0x0A] @ ''c''"]
  by (simp add: stripShebang_def)

theorem stripShebang_twice_counterexample:
  "stripShebang (fst (stripShebang (''#!a'' @ [CHR 0x0A] @ ''#!b'' @ [CHR 0x0A] @ ''c'')))
     \<noteq> stripShebang (''#!a'' @ [CHR 0x0A] @ ''#!b'' @ [CHR 0x0A] @ ''c'')"
  by (simp add: stripShebang_def)

section \<open>The order of the stages in the command\<close>

text \<open>
  In \<open>main\<close> (the version with the cache) the first thing done with the input is a
  run: whatever the input is, the world in which the length check and the validation
  take place is the world that \<open>runOnce\<close> or \<open>runCached\<close> has left, and an error of
  that run ends the process before either check.
\<close>

lemma main_runs_first:
  assumes "\<not> showVersion fl" and "\<not> clearCache fl"
    and "readInput e (arg0 fl) w = (w1, Inr code)"
    and "(if noCache fl then runOnce e code w1 else runCached e code w1) = (w2, r)"
  shows "\<forall>err. r = Some err \<longrightarrow> main e e' fl w = (emit [StderrError ''Error: '' err] w2, 1)"
    and "r = None \<and> code = [] \<longrightarrow> main e e' fl w = (emit usage w2, 1)"
    and "\<forall>err. r = None \<and> code \<noteq> [] \<and> validateCode code = Some err \<longrightarrow>
           main e e' fl w = (emit [StderrError ''Error validation: '' err] w2, 1)"
  using assms by (auto simp add: main_def)

text \<open>
  The first version of the command checks first: on empty input and on a source that
  fails validation it makes no call at all.
\<close>

lemma gorunMain_empty_input:
  "Stdin e = Inr [] \<Longrightarrow>
     gorunMain e [] w = (emit [Stdout gorunUsageText, Stdout gorunExampleText] w, 0)"
  by (simp add: gorunMain_def readInputArgs_def)

lemma gorunMain_validates_first:
  "Stdin e = Inr code \<Longrightarrow> code \<noteq> [] \<Longrightarrow> validateCode code = Some err \<Longrightarrow>
     gorunMain e [] w = (emit [StderrError validationErrorText err] w, 1)"
  by (simp add: gorunMain_def readInputArgs_def)

text \<open>
  C1. The source \<open>func main() {}\<close> has no package clause, so \<open>validateCode\<close> rejects
  it. \<open>main\<close> nevertheless hands it to \<open>runCached\<close> first: the cache entry directory
  and the debug copy of the source are written, the build workspace is created and
  \<open>go mod tidy\<close> is run in it. Here \<open>go mod tidy\<close> fails, and the process exits with
  status 1 on that error; the validation is never reached.
\<close>

theorem main_builds_before_validating:
  "validateCode bareSource = Some MissingPackage \<and>
   observe [''/home/u/.cache/gogo/0d21deacf3eff16f'',
            ''/home/u/.cache/gogo/0d21deacf3eff16f/main.go'']
     (main (withStdin bareSource (failingTidy exampleEnv)) exampleEnv noFlags emptyWorld)
   = ([Stat ''/home/u/.cache/gogo/0d21deacf3eff16f/run'',
       MkdirAll ''/home/u/.cache/gogo/0d21deacf3eff16f'',
       WriteFile ''/home/u/.cache/gogo/0d21deacf3eff16f/main.go'' bareSource,
       MkdirTemp ''gogo-build-*'',
       WriteFile ''/tmp/gogo-build-1/go.mod''
         (''module gogo-main'' @ [CHR 0x0A, CHR 0x0A] @ ''go 1.21'' @ [CHR 0x0A]),
       WriteFile ''/tmp/gogo-build-1/main.go'' bareSource,
       GoModTidy ''/tmp/gogo-build-1'',
       RemoveAll ''/tmp/gogo-build-1''],
      [Notice ''First run: downloading dependencies...'',
       StderrError ''Error: '' (TidyFailed (ExitError ''exit status 1''))],
      1,
      [Some (Dir 1000), Some (File bareSource 1000)])"
proof -
  have v: "validateCode bareSource = Some MissingPackage"
    by (rule validateCode_bareSource)
  have r: "observe [''/home/u/.cache/gogo/0d21deacf3eff16f'',
            ''/home/u/.cache/gogo/0d21deacf3eff16f/main.go'']
     (main (withStdin bareSource (failingTidy exampleEnv)) exampleEnv noFlags emptyWorld)
   = ([Stat ''/home/u/.cache/gogo/0d21deacf3eff16f/run'',
       MkdirAll ''/home/u/.cache/gogo/0d21deacf3eff16f'',
       WriteFile ''/home/u/.cache/gogo/0d21deacf3eff16f/main.go'' bareSource,
       MkdirTemp ''gogo-build-*'',
       WriteFile ''/tmp/gogo-build-1/go.mod''
         (''module gogo-main'' @ [CHR 0x0A, CHR 0x0A] @ ''go 1.21'' @ [CHR 0x0A]),
       WriteFile ''/tmp/gogo-build-1/main.go'' bareSource,
       GoModTidy ''/tmp/gogo-build-1'',
       RemoveAll ''/tmp/gogo-build-1''],
      [Notice ''First run: downloading dependencies...'',
       StderrError ''Error: '' (TidyFailed (ExitError ''exit status 1''))],
      1,
      [Some (Dir 1000), Some (File bareSource 1000)])"
    by (simp add: example_defs run_defs
          cong: option.case_cong_weak prod.case_cong_weak sum.case_cong_weak
                node.case_cong_weak list.case_cong_weak)
  from v r show ?thesis by (rule conjI)
qed

text \<open>
  C5. With empty input, \<open>main\<close> runs \<open>runCached\<close> on the empty source before it looks
  at the length of the input. When a step of that run fails (here \<open>go mod tidy\<close>), the
  process exits with status 1 on that error and the usage text is never printed. The
  usage text is printed, with exit status 1, only where the empty source has been built
  and run without error. (The first version of the command prints its usage text on
  standard output and returns with status 0, without building.)
\<close>

theorem main_builds_empty_input:
  "observe [''/home/u/.cache/gogo/e3b0c44298fc1c14'']
     (main (withStdin emptySource (failingTidy exampleEnv)) exampleEnv noFlags emptyWorld)
   = ([Stat ''/home/u/.cache/gogo/e3b0c44298fc1c14/run'',
       MkdirAll ''/home/u/.cache/gogo/e3b0c44298fc1c14'',
       WriteFile ''/home/u/.cache/gogo/e3b0c44298fc1c14/main.go'' [],
       MkdirTemp ''gogo-build-*'',
       WriteFile ''/tmp/gogo-build-1/go.mod''
         (''module gogo-main'' @ [CHR 0x0A, CHR 0x0A] @ ''go 1.21'' @ [CHR 0x0A]),
       WriteFile ''/tmp/gogo-build-1/main.go'' [],
       GoModTidy ''/tmp/gogo-build-1'',
       RemoveAll ''/tmp/gogo-build-1''],
      [Notice ''First run: downloading dependencies...'',
       StderrError ''Error: '' (TidyFailed (ExitError ''exit status 1''))],
      1,
      [Some (Dir 1000)]) \<and>
   observe [''/home/u/.cache/gogo/e3b0c44298fc1c14/run'']
     (main (withStdin emptySource exampleEnv) exampleEnv noFlags emptyWorld)
   = ([Stat ''/home/u/.cache/gogo/e3b0c44298fc1c14/run'',
       MkdirAll ''/home/u/.cache/gogo/e3b0c44298fc1c14'',
       WriteFile ''/home/u/.cache/gogo/e3b0c44298fc1c14/main.go'' [],
       MkdirTemp ''gogo-build-*'',
       WriteFile ''/tmp/gogo-build-1/go.mod''
         (''module gogo-main'' @ [CHR 0x0A, CHR 0x0A] @ ''go 1.21'' @ [CHR 0x0A]),
       WriteFile ''/tmp/gogo-build-1/main.go'' [],
       GoModTidy ''/tmp/gogo-build-1'',
       GoBuild ''/tmp/gogo-build-1'' ''/home/u/.cache/gogo/e3b0c44298fc1c14/run'',
       Chmod ''/home/u/.cache/gogo/e3b0c44298fc1c14/run'',
       WriteFile ''/home/u/.cache/gogo/e3b0c44298fc1c14/meta.txt''
         (''Built: 1970-01-01T00:00:00Z'' @ [CHR 0x0A] @ ''Go: go1.21.5'' @ [CHR 0x0A]),
       RunBinary ''/home/u/.cache/gogo/e3b0c44298fc1c14/run'',
       RemoveAll ''/tmp/gogo-build-1''],
      [Notice ''First run: downloading dependencies...'', Notice ''Building...'',
       Stderr ''Usage: echo 'code' | gogo'',
       Stderr ''       gogo file.go'',
       Stderr ''Flags: -once (no cache), -clear (clean cache), -version''],
      1,
      [Some (File ''ELF'' 1000)]) \<and>
   observe [] (gorunMain (withStdin emptySource exampleEnv) [] emptyWorld)
   = ([], [Stdout gorunUsageText, Stdout gorunExampleText], 0, [])"
proof (intro conjI)
  show "observe [''/home/u/.cache/gogo/e3b0c44298fc1c14'']
     (main (withStdin emptySource (failingTidy exampleEnv)) exampleEnv noFlags emptyWorld)
   = ([Stat ''/home/u/.cache/gogo/e3b0c44298fc1c14/run'',
       MkdirAll ''/home/u/.cache/gogo/e3b0c44298fc1c14'',
       WriteFile ''/home/u/.cache/gogo/e3b0c44298fc1c14/main.go'' [],
       MkdirTemp ''gogo-build-*'',
       WriteFile ''/tmp/gogo-build-1/go.mod''
         (''module gogo-main'' @ [CHR 0x0A, CHR 0x0A] @ ''go 1.21'' @ [CHR 0x0A]),
       WriteFile ''/tmp/gogo-build-1/main.go'' [],
       GoModTidy ''/tmp/gogo-build-1'',
       RemoveAll ''/tmp/gogo-build-1''],
      [Notice ''First run: downloading dependencies...'',
       StderrError ''Error: '' (TidyFailed (ExitError ''exit status 1''))],
      1,
      [Some (Dir 1000)])"
    by (simp add: example_defs run_defs
          cong: option.case_cong_weak prod.case_cong_weak sum.case_cong_weak
                node.case_cong_weak list.case_cong_weak)
next
  show "observe [''/home/u/.cache/gogo/e3b0c44298fc1c14/run'']
     (main (withStdin emptySource exampleEnv) exampleEnv noFlags emptyWorld)
   = ([Stat ''/home/u/.cache/gogo/e3b0c44298fc1c14/run'',
       MkdirAll ''/home/u/.cache/gogo/e3b0c44298fc1c14'',
       WriteFile ''/home/u/.cache/gogo/e3b0c44298fc1c14/main.go'' [],
       MkdirTemp ''gogo-build-*'',
       WriteFile ''/tmp/gogo-build-1/go.mod''
         (''module gogo-main'' @ [CHR 0x0A, CHR 0x0A] @ ''go 1.21'' @ [CHR 0x0A]),
       WriteFile ''/tmp/gogo-build-1/main.go'' [],
       GoModTidy ''/tmp/gogo-build-1'',
       GoBuild ''/tmp/gogo-build-1'' ''/home/u/.cache/gogo/e3b0c44298fc1c14/run'',
       Chmod ''/home/u/.cache/gogo/e3b0c44298fc1c14/run'',
       WriteFile ''/home/u/.cache/gogo/e3b0c44298fc1c14/meta.txt''
         (''Built: 1970-01-01T00:00:00Z'' @ [CHR 0x0A] @ ''Go: go1.21.5'' @ [CHR 0x0A]),
       RunBinary ''/home/u/.cache/gogo/e3b0c44298fc1c14/run'',
       RemoveAll ''/tmp/gogo-build-1''],
      [Notice ''First run: downloading dependencies...'', Notice ''Building...'',
       Stderr ''Usage: echo 'code' | gogo'',
       Stderr ''       gogo file.go'',
       Stderr ''Flags: -once (no cache), -clear (clean cache), -version''],
      1,
      [Some (File ''ELF'' 1000)])"
    by (simp add: example_defs run_defs
          cong: option.case_cong_weak prod.case_cong_weak sum.case_cong_weak
                node.case_cong_weak list.case_cong_weak)
next
  have "Stdin (withStdin emptySource exampleEnv) = Inr []"
    by (simp add: withStdin_def emptySource_def)
  then show "observe [] (gorunMain (withStdin emptySource exampleEnv) [] emptyWorld)
   = ([], [Stdout gorunUsageText, Stdout gorunExampleText], 0, [])"
    by (simp add: gorunMain_empty_input observe_def emptyWorld_def emit_def)
qed

section \<open>Cache lookup\<close>

lemma cacheHit_iff:
  "cacheHit e st \<longleftrightarrow> (\<exists>info. st = Some info \<and> Now e - ModTime info < 259200000000000)"
  by (cases st)
    (auto simp: cacheHit_def Since_def Hour_def maxDuration_def minDuration_def Let_def)

lemma runCached_hit:
  assumes "getCachePaths e code = (cacheDir, binaryPath)" and "cacheHit e (fs w binaryPath)"
  shows "runCached e code w =
     runBinary e binaryPath (emit [Notice ''Using cached binary''] (act (Stat binaryPath) w))"
  using assms by (simp add: runCached_def os_Stat_def)

lemma runCached_miss_trace:
  assumes "getCachePaths e code = (cacheDir, binaryPath)"
    and "\<not> cacheHit e (fs w binaryPath)"
  shows "\<exists>rest. trace (fst (runCached e code w))
           = trace w @ Stat binaryPath # MkdirAll cacheDir # rest"
  using assms unfolding runCached_def
  by (auto simp add: os_Stat_def split: option.splits sum.splits prod.splits
       dest!: MkdirAll_trace WriteFile_trace MkdirTemp_trace buildInto_trace)

lemma runCached_miss_ok:
  assumes paths: "getCachePaths e code = (cacheDir, binaryPath)"
    and miss: "\<not> cacheHit e (fs w binaryPath)"
    and ne: "cacheDir \<noteq> []"
    and mk: "MkdirAllError e cacheDir = None" "\<forall>c t. fs w cacheDir \<noteq> Some (File c t)"
    and wr: "\<forall>p. WriteFileError e p = None"
    and tmp: "MkdirTempResult e ''gogo-build-*'' = Inr tmpDir"
    and tidy: "TidyError e tmpDir = None" and build: "BuildResult e tmpDir = None"
  shows "GoBuild tmpDir binaryPath \<in> set (trace (fst (runCached e code w))) \<and>
         snd (runCached e code w) = RunError e binaryPath"
proof -
  obtain w2 r2 where a2: "os_MkdirAll e cacheDir (act (Stat binaryPath) w) = (w2, r2)"
    by (cases "os_MkdirAll e cacheDir (act (Stat binaryPath) w)")
  have "\<forall>c t. fs (act (Stat binaryPath) w) cacheDir \<noteq> Some (File c t)" using mk(2) by simp
  from MkdirAll_ok [OF mk(1) this a2 ne] have r2: "r2 = None" .
  obtain w3 r3 where a3: "os_WriteFile e (Join e [cacheDir, ''main.go'']) code w2 = (w3, r3)"
    by (cases "os_WriteFile e (Join e [cacheDir, ''main.go'']) code w2")
  with wr have r3: "r3 = None" by (auto dest: WriteFile_ok [rotated])
  obtain w4 r4 where a4: "os_MkdirTemp e ''gogo-build-*'' w3 = (w4, r4)"
    by (cases "os_MkdirTemp e ''gogo-build-*'' w3")
  with tmp have r4: "r4 = Inr tmpDir" by (auto dest: MkdirTemp_result)
  obtain w5 r5 where a5: "buildInto e code cacheDir binaryPath tmpDir w4 = (w5, r5)"
    by (cases "buildInto e code cacheDir binaryPath tmpDir w4")
  from buildInto_ok [OF wr tidy build a5]
  have r5: "r5 = RunError e binaryPath" and t5: "GoBuild tmpDir binaryPath \<in> set (trace w5)"
    by simp_all
  have "runCached e code w = (fst (os_RemoveAll e tmpDir w5), r5)"
    using paths miss a2 r2 a3 r3 a4 r4 a5 by (simp add: runCached_def os_Stat_def)
  with r5 t5 show ?thesis by simp
qed

text \<open>
  C4. The lookup is a hit exactly when something exists at the artifact path and its
  modification time is less than 72 hours (259200000000000 ns) before the clock. On a
  hit the cached binary is run and nothing else is done. On a miss (nothing there, or 72
  hours old or older) the rebuild starts: the next call is the creation of the entry
  directory, and when no step of the rebuild fails the compiler is invoked and the result
  of the run is the result of the program, so staleness itself is never an error. The
  creation of the entry directory is one of these steps: it cannot succeed on the empty
  path, which is the entry directory only when the cache directory of the user is
  unknown, and then its error is the result of the run.
\<close>

theorem lookup_hit_iff_fresh:
  assumes "getCachePaths e code = (cacheDir, binaryPath)"
  shows
    "(cacheHit e (fs w binaryPath) \<longleftrightarrow>
        (\<exists>info. fs w binaryPath = Some info \<and>
                Now e - ModTime info < 3 * 24 * 3600 * 1000000000)) \<and>
     (cacheHit e (fs w binaryPath) \<longrightarrow>
        runCached e code w =
          runBinary e binaryPath
            (emit [Notice ''Using cached binary''] (act (Stat binaryPath) w))) \<and>
     (\<not> cacheHit e (fs w binaryPath) \<longrightarrow>
        (\<exists>rest. trace (fst (runCached e code w))
                  = trace w @ Stat binaryPath # MkdirAll cacheDir # rest)) \<and>
     (\<not> cacheHit e (fs w binaryPath) \<and> cacheDir \<noteq> [] \<and>
      MkdirAllError e cacheDir = None \<and> (\<forall>c t. fs w cacheDir \<noteq> Some (File c t)) \<and>
      (\<forall>p. WriteFileError e p = None) \<and>
      MkdirTempResult e ''gogo-build-*'' = Inr tmpDir \<and>
      TidyError e tmpDir = None \<and> BuildResult e tmpDir = None \<longrightarrow>
        GoBuild tmpDir binaryPath \<in> set (trace (fst (runCached e code w))) \<and>
        snd (runCached e code w) = RunError e binaryPath) \<and>
     (\<not> cacheHit e (fs w binaryPath) \<and> cacheDir = [] \<longrightarrow>
        runCached e code w =
          (act (MkdirAll []) (act (Stat binaryPath) w), Some (PathError ''mkdir'' [])))"
proof (intro conjI impI)
  show "cacheHit e (fs w binaryPath) \<longleftrightarrow>
        (\<exists>info. fs w binaryPath = Some info \<and>
                Now e - ModTime info < 3 * 24 * 3600 * 1000000000)"
    by (simp add: cacheHit_iff)
next
  assume "cacheHit e (fs w binaryPath)"
  with assms show "runCached e code w =
          runBinary e binaryPath
            (emit [Notice ''Using cached binary''] (act (Stat binaryPath) w))"
    by (rule runCached_hit)
next
  assume "\<not> cacheHit e (fs w binaryPath)"
  with assms show "\<exists>rest. trace (fst (runCached e code w))
                  = trace w @ Stat binaryPath # MkdirAll cacheDir # rest"
    by (rule runCached_miss_trace)
next
  assume h: "\<not> cacheHit e (fs w binaryPath) \<and> cacheDir \<noteq> [] \<and>
      MkdirAllError e cacheDir = None \<and> (\<forall>c t. fs w cacheDir \<noteq> Some (File c t)) \<and>
      (\<forall>p. WriteFileError e p = None) \<and>
      MkdirTempResult e ''gogo-build-*'' = Inr tmpDir \<and>
      TidyError e tmpDir = None \<and> BuildResult e tmpDir = None"
  from h have h1: "\<not> cacheHit e (fs w binaryPath)" by blast
  from h have h0: "cacheDir \<noteq> []" by blast
  from h have h2: "MkdirAllError e cacheDir = None" by blast
  from h have h3: "\<forall>c t. fs w cacheDir \<noteq> Some (File c t)" by blast
  from h have h4: "\<forall>p. WriteFileError e p = None" by blast
  from h have h5: "MkdirTempResult e ''gogo-build-*'' = Inr tmpDir" by blast
  from h have h6: "TidyError e tmpDir = None" by blast
  from h have h7: "BuildResult e tmpDir = None" by blast
  have r: "GoBuild tmpDir binaryPath \<in> set (trace (fst (runCached e code w))) \<and>
        snd (runCached e code w) = RunError e binaryPath"
    by (rule runCached_miss_ok [OF assms h1 h0 h2 h3 h4 h5 h6 h7])
  from r show "GoBuild tmpDir binaryPath \<in> set (trace (fst (runCached e code w)))" by simp
  from r show "snd (runCached e code w) = RunError e binaryPath" by simp
next
  assume "\<not> cacheHit e (fs w binaryPath) \<and> cacheDir = []"
  with assms show "runCached e code w =
          (act (MkdirAll []) (act (Stat binaryPath) w), Some (PathError ''mkdir'' []))"
    by (simp add: runCached_def os_Stat_def MkdirAll_empty)
qed

lemma example_paths:
  "getCachePaths exampleEnv helloSource =
     (''/home/u/.cache/gogo/55a60bb97151b2b4'', ''/home/u/.cache/gogo/55a60bb97151b2b4/run'')"
  by (simp add: getCachePaths_def example_defs Join_def Clean_def Separator_def Let_def)

theorem lookup_hit_iff_fresh_witness:
  "getCachePaths exampleEnv helloSource =
     (''/home/u/.cache/gogo/55a60bb97151b2b4'', ''/home/u/.cache/gogo/55a60bb97151b2b4/run'') \<and>
   cacheHit (exampleEnv\<lparr>Now := 259200000001000\<rparr>) (Some (File ''ELF'' 1001)) \<and>
   \<not> cacheHit (exampleEnv\<lparr>Now := 259200000001000\<rparr>) (Some (File ''ELF'' 1000)) \<and>
   \<not> cacheHit exampleEnv (fs emptyWorld ''/home/u/.cache/gogo/55a60bb97151b2b4/run'') \<and>
   GoBuild ''/tmp/gogo-build-1'' ''/home/u/.cache/gogo/55a60bb97151b2b4/run''
     \<in> set (trace (fst (runCached exampleEnv helloSource emptyWorld))) \<and>
   snd (runCached exampleEnv helloSource emptyWorld) = None \<and>
   getCachePaths (exampleEnv\<lparr>UserCacheDir := Inl (PathError ''getenv'' ''HOME'')\<rparr>) helloSource
     = ([], []) \<and>
   runCached (exampleEnv\<lparr>UserCacheDir := Inl (PathError ''getenv'' ''HOME'')\<rparr>) helloSource
       emptyWorld
     = (act (MkdirAll []) (act (Stat []) emptyWorld), Some (PathError ''mkdir'' []))"
  using lookup_hit_iff_fresh [OF example_paths, of emptyWorld "''/tmp/gogo-build-1''"]
    lookup_hit_iff_fresh [of "exampleEnv\<lparr>UserCacheDir := Inl (PathError ''getenv'' ''HOME'')\<rparr>"
       helloSource "[]" "[]" emptyWorld]
    lookup_hit_iff_fresh [of "exampleEnv\<lparr>Now := 259200000001000\<rparr>" helloSource
       "''/home/u/.cache/gogo/55a60bb97151b2b4''" "''/home/u/.cache/gogo/55a60bb97151b2b4/run''"
       "emptyWorld\<lparr>fs := (\<lambda>p. Some (File ''ELF'' 1001))\<rparr>"]
    lookup_hit_iff_fresh [of "exampleEnv\<lparr>Now := 259200000001000\<rparr>" helloSource
       "''/home/u/.cache/gogo/55a60bb97151b2b4''" "''/home/u/.cache/gogo/55a60bb97151b2b4/run''"
       "emptyWorld\<lparr>fs := (\<lambda>p. Some (File ''ELF'' 1000))\<rparr>"]
  by (simp add: example_paths getCachePaths_def example_defs Join_def Clean_def Separator_def
        Let_def)

section \<open>Cache entries after a failed step\<close>

text \<open>
  C2. A build of \<open>helloSource\<close> on an empty cache in which the write of \<open>meta.txt\<close>
  fails: the failure is ignored, the run succeeds, and the entry directory stays with the
  source and the artifact but without metadata; a lookup one second later (well inside
  the three days) is a hit. For comparison, a build in which the compiler fails removes
  the entry directory: that is the only failure after which it is removed.
\<close>

theorem partial_entry_is_a_hit:
  "observe [''/home/u/.cache/gogo/55a60bb97151b2b4'',
            ''/home/u/.cache/gogo/55a60bb97151b2b4/main.go'',
            ''/home/u/.cache/gogo/55a60bb97151b2b4/run'',
            ''/home/u/.cache/gogo/55a60bb97151b2b4/meta.txt'']
     (runCached (failingWriteAt ''/home/u/.cache/gogo/55a60bb97151b2b4/meta.txt'' exampleEnv)
        helloSource emptyWorld)
   = ([Stat ''/home/u/.cache/gogo/55a60bb97151b2b4/run'',
       MkdirAll ''/home/u/.cache/gogo/55a60bb97151b2b4'',
       WriteFile ''/home/u/.cache/gogo/55a60bb97151b2b4/main.go'' helloSource,
       MkdirTemp ''gogo-build-*'',
       WriteFile ''/tmp/gogo-build-1/go.mod''
         (''module gogo-main'' @ [CHR 0x0A, CHR 0x0A] @ ''go 1.21'' @ [CHR 0x0A]),
       WriteFile ''/tmp/gogo-build-1/main.go'' helloSource,
       GoModTidy ''/tmp/gogo-build-1'',
       GoBuild ''/tmp/gogo-build-1'' ''/home/u/.cache/gogo/55a60bb97151b2b4/run'',
       Chmod ''/home/u/.cache/gogo/55a60bb97151b2b4/run'',
       WriteFile ''/home/u/.cache/gogo/55a60bb97151b2b4/meta.txt''
         (''Built: 1970-01-01T00:00:00Z'' @ [CHR 0x0A] @ ''Go: go1.21.5'' @ [CHR 0x0A]),
       RunBinary ''/home/u/.cache/gogo/55a60bb97151b2b4/run'',
       RemoveAll ''/tmp/gogo-build-1''],
      [Notice ''First run: downloading dependencies...'', Notice ''Building...''],
      None,
      [Some (Dir 1000), Some (File helloSource 1000), Some (File ''ELF'' 1000), None]) \<and>
   cacheHit (exampleEnv\<lparr>Now := 1000001000\<rparr>)
     (fs (fst (runCached
                 (failingWriteAt ''/home/u/.cache/gogo/55a60bb97151b2b4/meta.txt'' exampleEnv)
                 helloSource emptyWorld))
        ''/home/u/.cache/gogo/55a60bb97151b2b4/run'') \<and>
   observe [''/home/u/.cache/gogo/55a60bb97151b2b4'',
            ''/home/u/.cache/gogo/55a60bb97151b2b4/main.go'',
            ''/home/u/.cache/gogo/55a60bb97151b2b4/run'']
     (runCached (failingBuild exampleEnv) helloSource emptyWorld)
   = ([Stat ''/home/u/.cache/gogo/55a60bb97151b2b4/run'',
       MkdirAll ''/home/u/.cache/gogo/55a60bb97151b2b4'',
       WriteFile ''/home/u/.cache/gogo/55a60bb97151b2b4/main.go'' helloSource,
       MkdirTemp ''gogo-build-*'',
       WriteFile ''/tmp/gogo-build-1/go.mod''
         (''module gogo-main'' @ [CHR 0x0A, CHR 0x0A] @ ''go 1.21'' @ [CHR 0x0A]),
       WriteFile ''/tmp/gogo-build-1/main.go'' helloSource,
       GoModTidy ''/tmp/gogo-build-1'',
       GoBuild ''/tmp/gogo-build-1'' ''/home/u/.cache/gogo/55a60bb97151b2b4/run'',
       RemoveAll ''/home/u/.cache/gogo/55a60bb97151b2b4'',
       RemoveAll ''/tmp/gogo-build-1''],
      [Notice ''First run: downloading dependencies...'', Notice ''Building...'',
       Title ''syntax error'', FileLoc ''./main.go'', LineLoc 3, ColLoc ''1'',
       Msg ''unexpected }'', Context 2 [], Marked 3 ''func main() {}'', Context 4 [],
       Blank, Failed],
      Some CompilationFailed,
      [None, None, None])"
proof -
  have p: "parseGoErrors ''./main.go:3:1: syntax error: unexpected }'' helloSource
     = [Title ''syntax error'', FileLoc ''./main.go'', LineLoc 3, ColLoc ''1'',
        Msg ''unexpected }'', Context 2 [], Marked 3 ''func main() {}'', Context 4 [],
        Blank, Failed]"
    by (simp add: parse_defs string_defs helloSource_def upto_rec1)
  show ?thesis
    by (simp add: exampleEnv_def emptyWorld_def failingBuild_def failingWriteAt_def
          run_defs p helloSource_not_bare
          cong: option.case_cong_weak prod.case_cong_weak sum.case_cong_weak
                node.case_cong_weak list.case_cong_weak)
qed

text \<open>
  What holds of every cached run in which \<open>go mod tidy\<close> fails after the steps before
  it have succeeded: the error is \<open>TidyFailed\<close>, and the calls made are exactly the
  ones listed: no \<open>go build\<close>, and no removal of the entry directory.
\<close>

lemma createModule_ok_trace:
  assumes wr: "\<forall>p. WriteFileError e p = None" and cm: "createModule e d c w = (w', r)"
  shows "\<exists>k. trace w' = trace w @ [WriteFile (Join e [d, ''go.mod'']) k,
                                     WriteFile (Join e [d, ''main.go'']) c]"
proof -
  define k where "k = ''module gogo-main'' @ [CHR 0x0A, CHR 0x0A] @ ''go '' @
    (if length (Split (TrimPrefix (Version e) ''go'') (CHR ''.'')) \<ge> 2
     then Split (TrimPrefix (Version e) ''go'') (CHR ''.'') ! 0 @ ''.'' @
          Split (TrimPrefix (Version e) ''go'') (CHR ''.'') ! 1
     else TrimPrefix (Version e) ''go'') @ [CHR 0x0A]"
  obtain w1 r1 where a1: "os_WriteFile e (Join e [d, ''go.mod'']) k w = (w1, r1)"
    by (cases "os_WriteFile e (Join e [d, ''go.mod'']) k w")
  with wr have r1: "r1 = None" by (auto dest: WriteFile_ok [rotated])
  from cm a1 r1 have "os_WriteFile e (Join e [d, ''main.go'']) c w1 = (w', r)"
    unfolding createModule_def Let_def k_def by simp
  from WriteFile_trace [OF this] WriteFile_trace [OF a1]
  have "trace w' = trace w @ [WriteFile (Join e [d, ''go.mod'']) k,
                               WriteFile (Join e [d, ''main.go'']) c]" by simp
  then show ?thesis by blast
qed

lemma buildInto_tidy_failure:
  assumes wr: "\<forall>p. WriteFileError e p = None" and tidy: "TidyError e t = Some err"
    and b: "buildInto e c d b t w = (w', r)"
  shows "r = Some (TidyFailed err) \<and>
         (\<exists>k. trace w' = trace w @ [WriteFile (Join e [t, ''go.mod'']) k,
                                     WriteFile (Join e [t, ''main.go'']) c, GoModTidy t])"
proof -
  obtain w1 r1 where cm: "createModule e t c w = (w1, r1)"
    by (cases "createModule e t c w")
  with wr have r1: "r1 = None" by (simp add: createModule_ok)
  from createModule_ok_trace [OF wr cm] obtain k where
    k: "trace w1 = trace w @ [WriteFile (Join e [t, ''go.mod'']) k,
                               WriteFile (Join e [t, ''main.go'']) c]" by blast
  from b cm r1 tidy have "r = Some (TidyFailed err)" and "trace w' = trace w1 @ [GoModTidy t]"
    unfolding buildInto_def Let_def by auto
  with k show ?thesis by simp
qed

lemma runCached_tidy_failure:
  assumes paths: "getCachePaths e code = (cacheDir, binaryPath)"
    and miss: "\<not> cacheHit e (fs w binaryPath)"
    and ne: "cacheDir \<noteq> []"
    and mk: "MkdirAllError e cacheDir = None" "\<forall>c t. fs w cacheDir \<noteq> Some (File c t)"
    and wr: "\<forall>p. WriteFileError e p = None"
    and tmp: "MkdirTempResult e ''gogo-build-*'' = Inr tmpDir"
    and tidy: "TidyError e tmpDir = Some err"
  shows "snd (runCached e code w) = Some (TidyFailed err) \<and>
         (\<exists>k. trace (fst (runCached e code w)) = trace w @
            [Stat binaryPath, MkdirAll cacheDir, WriteFile (Join e [cacheDir, ''main.go'']) code,
             MkdirTemp ''gogo-build-*'', WriteFile (Join e [tmpDir, ''go.mod'']) k,
             WriteFile (Join e [tmpDir, ''main.go'']) code, GoModTidy tmpDir, RemoveAll tmpDir])"
proof -
  obtain w2 r2 where a2: "os_MkdirAll e cacheDir (act (Stat binaryPath) w) = (w2, r2)"
    by (cases "os_MkdirAll e cacheDir (act (Stat binaryPath) w)")
  have "\<forall>c t. fs (act (Stat binaryPath) w) cacheDir \<noteq> Some (File c t)" using mk(2) by simp
  from MkdirAll_ok [OF mk(1) this a2 ne] have r2: "r2 = None" .
  obtain w3 r3 where a3: "os_WriteFile e (Join e [cacheDir, ''main.go'']) code w2 = (w3, r3)"
    by (cases "os_WriteFile e (Join e [cacheDir, ''main.go'']) code w2")
  with wr have r3: "r3 = None" by (auto dest: WriteFile_ok [rotated])
  obtain w4 r4 where a4: "os_MkdirTemp e ''gogo-build-*'' w3 = (w4, r4)"
    by (cases "os_MkdirTemp e ''gogo-build-*'' w3")
  with tmp have r4: "r4 = Inr tmpDir" by (auto dest: MkdirTemp_result)
  obtain w5 r5 where a5: "buildInto e code cacheDir binaryPath tmpDir w4 = (w5, r5)"
    by (cases "buildInto e code cacheDir binaryPath tmpDir w4")
  from buildInto_tidy_failure [OF wr tidy a5] obtain k where
    r5: "r5 = Some (TidyFailed err)"
    and t5: "trace w5 = trace w4 @ [WriteFile (Join e [tmpDir, ''go.mod'']) k,
               WriteFile (Join e [tmpDir, ''main.go'']) code, GoModTidy tmpDir]" by blast
  have t4: "trace w4 = trace w @ [Stat binaryPath, MkdirAll cacheDir,
              WriteFile (Join e [cacheDir, ''main.go'']) code, MkdirTemp ''gogo-build-*'']"
    using MkdirAll_trace [OF a2] WriteFile_trace [OF a3] MkdirTemp_trace [OF a4] by simp
  have "runCached e code w = (fst (os_RemoveAll e tmpDir w5), r5)"
    using paths miss a2 r2 a3 r3 a4 r4 a5 by (simp add: runCached_def os_Stat_def)
  with r5 t5 t4 show ?thesis by simp
qed

text \<open>
  C3. A cached run of \<open>helloSource\<close> on an empty cache in which \<open>go mod tidy\<close> fails:
  the run ends with the error \<open>go mod tidy failed\<close> (not a compilation failure) and the
  compiler is never invoked, but the entry directory and the copy of the source, written
  before the workspace was created, are still there afterwards.
\<close>

theorem tidy_failure_leaves_entry:
  "observe [''/home/u/.cache/gogo/55a60bb97151b2b4'',
            ''/home/u/.cache/gogo/55a60bb97151b2b4/main.go'',
            ''/home/u/.cache/gogo/55a60bb97151b2b4/run'']
     (runCached (failingTidy exampleEnv) helloSource emptyWorld)
   = ([Stat ''/home/u/.cache/gogo/55a60bb97151b2b4/run'',
       MkdirAll ''/home/u/.cache/gogo/55a60bb97151b2b4'',
       WriteFile ''/home/u/.cache/gogo/55a60bb97151b2b4/main.go'' helloSource,
       MkdirTemp ''gogo-build-*'',
       WriteFile ''/tmp/gogo-build-1/go.mod''
         (''module gogo-main'' @ [CHR 0x0A, CHR 0x0A] @ ''go 1.21'' @ [CHR 0x0A]),
       WriteFile ''/tmp/gogo-build-1/main.go'' helloSource,
       GoModTidy ''/tmp/gogo-build-1'',
       RemoveAll ''/tmp/gogo-build-1''],
      [Notice ''First run: downloading dependencies...''],
      Some (TidyFailed (ExitError ''exit status 1'')),
      [Some (Dir 1000), Some (File helloSource 1000), None]) \<and>
   map (fs emptyWorld)
     [''/home/u/.cache/gogo/55a60bb97151b2b4'',
      ''/home/u/.cache/gogo/55a60bb97151b2b4/main.go'',
      ''/home/u/.cache/gogo/55a60bb97151b2b4/run'']
   = [None, None, None]"
  by (simp add: exampleEnv_def emptyWorld_def failingTidy_def run_defs helloSource_not_bare
        cong: option.case_cong_weak prod.case_cong_weak sum.case_cong_weak
              node.case_cong_weak list.case_cong_weak)

section \<open>The build workspace\<close>

lemma runOnce_removes:
  assumes "MkdirTempResult e ''gogo-once-*'' = Inr tmpDir" and "tmpDir \<noteq> []"
    and "under tmpDir q"
  shows "(RemoveAllError e tmpDir = None \<longrightarrow> fs (fst (runOnce e code w)) q = None) \<and>
         last (trace (fst (runOnce e code w))) = RemoveAll tmpDir"
proof -
  obtain w1 r1 where a1: "os_MkdirTemp e ''gogo-once-*'' w = (w1, r1)"
    by (cases "os_MkdirTemp e ''gogo-once-*'' w")
  with assms(1) have r1: "r1 = Inr tmpDir" by (auto dest: MkdirTemp_result)
  obtain w2 r2 where a2: "runInto e code tmpDir w1 = (w2, r2)"
    by (cases "runInto e code tmpDir w1")
  have "runOnce e code w = (fst (os_RemoveAll e tmpDir w2), r2)"
    using a1 r1 a2 by (simp add: runOnce_def)
  with assms(2,3) show ?thesis by (simp add: RemoveAll_gone)
qed

lemma runCached_removes:
  assumes tmp: "MkdirTempResult e ''gogo-build-*'' = Inr tmpDir" and ne: "tmpDir \<noteq> []"
    and un: "under tmpDir q" and tr: "trace w = []"
    and reached: "MkdirTemp ''gogo-build-*'' \<in> set (trace (fst (runCached e code w)))"
  shows "(RemoveAllError e tmpDir = None \<longrightarrow> fs (fst (runCached e code w)) q = None) \<and>
         last (trace (fst (runCached e code w))) = RemoveAll tmpDir"
proof -
  obtain cacheDir binaryPath where paths: "getCachePaths e code = (cacheDir, binaryPath)"
    by (cases "getCachePaths e code")
  show ?thesis
  proof (cases "cacheHit e (fs w binaryPath)")
    case True
    have "trace (fst (runCached e code w)) = [Stat binaryPath, RunBinary binaryPath]"
      using runCached_hit [OF paths True] tr by (simp add: runBinary_def)
    with reached show ?thesis by simp
  next
    case miss: False
    obtain w2 r2 where a2: "os_MkdirAll e cacheDir (act (Stat binaryPath) w) = (w2, r2)"
      by (cases "os_MkdirAll e cacheDir (act (Stat binaryPath) w)")
    have t2: "trace w2 = [Stat binaryPath, MkdirAll cacheDir]"
      using MkdirAll_trace [OF a2] tr by simp
    show ?thesis
    proof (cases r2)
      case (Some err)
      have "runCached e code w = (w2, Some err)"
        using paths miss a2 Some by (simp add: runCached_def os_Stat_def)
      with reached t2 show ?thesis by simp
    next
      case None
      obtain w3 r3 where a3: "os_WriteFile e (Join e [cacheDir, ''main.go'']) code w2 = (w3, r3)"
        by (cases "os_WriteFile e (Join e [cacheDir, ''main.go'']) code w2")
      have t3: "trace w3 = [Stat binaryPath, MkdirAll cacheDir,
                  WriteFile (Join e [cacheDir, ''main.go'']) code]"
        using WriteFile_trace [OF a3] t2 by simp
      show ?thesis
      proof (cases r3)
        case (Some err)
        have "runCached e code w = (w3, Some err)"
          using paths miss a2 None a3 Some by (simp add: runCached_def os_Stat_def)
        with reached t3 show ?thesis by simp
      next
        case w_ok: None
        obtain w4 r4 where a4: "os_MkdirTemp e ''gogo-build-*'' w3 = (w4, r4)"
          by (cases "os_MkdirTemp e ''gogo-build-*'' w3")
        with tmp have r4: "r4 = Inr tmpDir" by (auto dest: MkdirTemp_result)
        obtain w5 r5 where a5: "buildInto e code cacheDir binaryPath tmpDir w4 = (w5, r5)"
          by (cases "buildInto e code cacheDir binaryPath tmpDir w4")
        have "runCached e code w = (fst (os_RemoveAll e tmpDir w5), r5)"
          using paths miss a2 None a3 w_ok a4 r4 a5 by (simp add: runCached_def os_Stat_def)
        with ne un show ?thesis by (simp add: RemoveAll_gone)
      qed
    qed
  qed
qed

text \<open>
  C9. Whenever a run has created its build workspace (\<open>os.MkdirTemp\<close> returned the
  non-empty path \<open>tmpDir\<close>), the removal of \<open>tmpDir\<close> is the last call the run makes,
  and, the removal succeeding, nothing exists at or below \<open>tmpDir\<close> when the run
  returns: in cached mode and in no-cache mode, whatever the outcome of the steps in
  between. (\<open>runOnce\<close> creates its workspace first; \<open>runCached\<close> reaches the creation
  only after a miss and two successful writes to the cache, hence the condition on its
  trace.)
\<close>

theorem workspace_removed_on_every_path:
  assumes "tmpDir \<noteq> []" and "under tmpDir q" and "trace w = []"
  shows
    "(MkdirTempResult e ''gogo-build-*'' = Inr tmpDir \<and>
      MkdirTemp ''gogo-build-*'' \<in> set (trace (fst (runCached e code w))) \<longrightarrow>
        last (trace (fst (runCached e code w))) = RemoveAll tmpDir \<and>
        (RemoveAllError e tmpDir = None \<longrightarrow> fs (fst (runCached e code w)) q = None)) \<and>
     (MkdirTempResult e ''gogo-once-*'' = Inr tmpDir \<longrightarrow>
        last (trace (fst (runOnce e code w))) = RemoveAll tmpDir \<and>
        (RemoveAllError e tmpDir = None \<longrightarrow> fs (fst (runOnce e code w)) q = None))"
  using assms runCached_removes [of e tmpDir q w code] runOnce_removes [of e tmpDir q code w]
  by blast

theorem workspace_removed_on_every_path_witness:
  "''/tmp/gogo-build-1'' \<noteq> [] \<and>
   under ''/tmp/gogo-build-1'' ''/tmp/gogo-build-1/go.mod'' \<and>
   trace emptyWorld = [] \<and>
   MkdirTempResult exampleEnv ''gogo-build-*'' = Inr ''/tmp/gogo-build-1'' \<and>
   MkdirTempResult exampleEnv ''gogo-once-*'' = Inr ''/tmp/gogo-build-1'' \<and>
   RemoveAllError exampleEnv ''/tmp/gogo-build-1'' = None \<and>
   MkdirTemp ''gogo-build-*'' \<in> set (trace (fst (runCached exampleEnv helloSource emptyWorld))) \<and>
   fs (fst (runCached exampleEnv helloSource emptyWorld)) ''/tmp/gogo-build-1/go.mod'' = None \<and>
   last (trace (fst (runCached exampleEnv helloSource emptyWorld))) = RemoveAll ''/tmp/gogo-build-1'' \<and>
   fs (fst (runOnce exampleEnv helloSource emptyWorld)) ''/tmp/gogo-build-1/go.mod'' = None \<and>
   last (trace (fst (runOnce exampleEnv helloSource emptyWorld))) = RemoveAll ''/tmp/gogo-build-1''"
proof -
  have m: "MkdirTemp ''gogo-build-*'' \<in> set (trace (fst (runCached exampleEnv helloSource emptyWorld)))"
    by (simp add: exampleEnv_def emptyWorld_def run_defs helloSource_not_bare
          cong: option.case_cong_weak prod.case_cong_weak sum.case_cong_weak
                node.case_cong_weak list.case_cong_weak)
  have h: "''/tmp/gogo-build-1'' \<noteq> []" "under ''/tmp/gogo-build-1'' ''/tmp/gogo-build-1/go.mod''"
    "trace emptyWorld = []"
    "MkdirTempResult exampleEnv ''gogo-build-*'' = Inr ''/tmp/gogo-build-1''"
    "MkdirTempResult exampleEnv ''gogo-once-*'' = Inr ''/tmp/gogo-build-1''"
    "RemoveAllError exampleEnv ''/tmp/gogo-build-1'' = None"
    by (simp_all add: under_def example_defs)
  from workspace_removed_on_every_path [OF h(1) h(2) h(3), of exampleEnv helloSource] m h
  show ?thesis by simp
qed

section \<open>An unresolved cache directory\<close>

text \<open>
  C10. When \<open>os.UserCacheDir\<close> reports an error, \<open>getCachePaths\<close> returns the empty
  string twice (its type has no error to return), and \<open>runCached\<close> goes on with them: it
  calls \<open>os.Stat\<close> on the empty path, which is a miss (the empty path names nothing:
  \<open>fs w [] = None\<close>), and then \<open>os.MkdirAll\<close> on the empty path. That call fails, and
  \<open>runCached\<close> returns its error at once: these two calls are all it does, no workspace
  is created, nothing is written and the file system is as it was.
\<close>

theorem empty_paths_when_no_cache_dir:
  assumes "UserCacheDir e = Inl err" and "fs w [] = None"
  shows
    "getCachePaths e code = ([], []) \<and>
     runCached e code w = (act (MkdirAll []) (act (Stat []) w), Some (PathError ''mkdir'' [])) \<and>
     trace (fst (runCached e code w)) = trace w @ [Stat [], MkdirAll []] \<and>
     fs (fst (runCached e code w)) = fs w \<and>
     out (fst (runCached e code w)) = out w"
proof -
  have paths: "getCachePaths e code = ([], [])"
    using assms(1) by (simp add: getCachePaths_def)
  have miss: "\<not> cacheHit e (fs w [])" using assms(2) by (simp add: cacheHit_def)
  have run: "runCached e code w
               = (act (MkdirAll []) (act (Stat []) w), Some (PathError ''mkdir'' []))"
    using paths miss by (simp add: runCached_def os_Stat_def MkdirAll_empty)
  from paths run show ?thesis by simp
qed

theorem empty_paths_when_no_cache_dir_witness:
  "UserCacheDir (exampleEnv\<lparr>UserCacheDir := Inl (PathError ''getenv'' ''HOME'')\<rparr>)
     = Inl (PathError ''getenv'' ''HOME'') \<and>
   fs emptyWorld [] = None \<and>
   getCachePaths (exampleEnv\<lparr>UserCacheDir := Inl (PathError ''getenv'' ''HOME'')\<rparr>) helloSource
     = ([], []) \<and>
   trace (fst (runCached (exampleEnv\<lparr>UserCacheDir := Inl (PathError ''getenv'' ''HOME'')\<rparr>)
                 helloSource emptyWorld))
     = [Stat [], MkdirAll []] \<and>
   snd (runCached (exampleEnv\<lparr>UserCacheDir := Inl (PathError ''getenv'' ''HOME'')\<rparr>)
          helloSource emptyWorld)
     = Some (PathError ''mkdir'' [])"
proof -
  have h: "UserCacheDir (exampleEnv\<lparr>UserCacheDir := Inl (PathError ''getenv'' ''HOME'')\<rparr>)
     = Inl (PathError ''getenv'' ''HOME'')" "fs emptyWorld [] = None"
    by (simp_all add: example_defs)
  from empty_paths_when_no_cache_dir [OF h(1) h(2), of helloSource] h
  show ?thesis by (simp add: emptyWorld_def)
qed

text \<open>
  With the cache directory unresolved and every call that the environment decides
  succeeding, the run on an empty file system is the two calls above and the error of
  \<open>os.MkdirAll\<close>: no \<open>WriteFile\<close> is among the calls, and afterwards there is
  neither a \<open>main.go\<close> nor anything at the empty path.
\<close>

theorem empty_paths_write_nothing_counterexample:
  "observe [''main.go'', []]
     (runCached (exampleEnv\<lparr>UserCacheDir := Inl (PathError ''getenv'' ''HOME'')\<rparr>)
        helloSource emptyWorld)
   = ([Stat [], MkdirAll []], [], Some (PathError ''mkdir'' []), [None, None])"
  by (simp add: exampleEnv_def emptyWorld_def run_defs helloSource_not_bare
        cong: option.case_cong_weak prod.case_cong_weak sum.case_cong_weak
              node.case_cong_weak list.case_cong_weak)

section \<open>Diagnostics\<close>







lemma matchNumber_cases:
  "matchNumber s = None \<or> (\<exists>ds r. matchNumber s = Some (ds, r))"
  by (cases "matchNumber s") auto































lemma passthroughs_Nil [simp]: "passthroughs [] = []"
  by (simp add: passthroughs_def)

lemma passthroughs_Cons [simp]:
  "passthroughs (e # es) = (case e of Plain t \<Rightarrow> [t] | _ \<Rightarrow> []) @ passthroughs es"
  by (simp add: passthroughs_def)

lemma passthroughs_append [simp]: "passthroughs (a @ b) = passthroughs a @ passthroughs b"
  by (simp add: passthroughs_def)

lemma passthroughs_context [simp]: "passthroughs (showSourceContext src n) = []"
  by (auto simp add: passthroughs_def showSourceContext_def Let_def)












section \<open>Source excerpts\<close>

text \<open>
  C8. When the line number lies between 1 and the number of lines of the source, the
  excerpt is the line before (if there is one), the erroring line, marked, and the line
  after (if there is one), each with its number; when it lies outside, nothing is printed
  and there is no failure.
\<close>

theorem showSourceContext_excerpt:
  "(1 \<le> errorLine \<and> errorLine \<le> int (length (Split source (CHR 0x0A))) \<longrightarrow>
      showSourceContext source errorLine =
        (if errorLine > 1
         then [Context (errorLine - 1) (Split source (CHR 0x0A) ! nat (errorLine - 2))]
         else [])
        @ [Marked errorLine (Split source (CHR 0x0A) ! nat (errorLine - 1))]
        @ (if errorLine < int (length (Split source (CHR 0x0A)))
           then [Context (errorLine + 1) (Split source (CHR 0x0A) ! nat errorLine)]
           else [])) \<and>
   (\<not> (1 \<le> errorLine \<and> errorLine \<le> int (length (Split source (CHR 0x0A)))) \<longrightarrow>
      showSourceContext source errorLine = [])"
proof (intro conjI impI)
  assume r: "1 \<le> errorLine \<and> errorLine \<le> int (length (Split source (CHR 0x0A)))"
  define n where "n = int (length (Split source (CHR 0x0A)))"
  have u2: "[k .. k + 1] = [k, k + 1]" for k :: int by (simp add: upto_rec1)
  have u3: "[k .. k + 2] = [k, k + 1, k + 2]" for k :: int by (simp add: upto_rec1)
  consider (a) "errorLine = 1" "n = 1" | (b) "errorLine = 1" "n > 1"
    | (c) "errorLine > 1" "errorLine = n" | (d) "errorLine > 1" "errorLine < n"
    using r n_def by linarith
  then show "showSourceContext source errorLine =
        (if errorLine > 1
         then [Context (errorLine - 1) (Split source (CHR 0x0A) ! nat (errorLine - 2))]
         else [])
        @ [Marked errorLine (Split source (CHR 0x0A) ! nat (errorLine - 1))]
        @ (if errorLine < int (length (Split source (CHR 0x0A)))
           then [Context (errorLine + 1) (Split source (CHR 0x0A) ! nat errorLine)]
           else [])"
  proof cases
    case a
    then show ?thesis using r unfolding showSourceContext_def n_def Let_def by auto
  next
    case b
    have "[0 .. (1::int)] = [0, 1]" by (simp add: upto_rec1)
    with b show ?thesis using r unfolding showSourceContext_def n_def Let_def by auto
  next
    case c
    have "[errorLine - 2 .. errorLine - 1] = [errorLine - 2, errorLine - 1]"
      using u2 [of "errorLine - 2"] by (simp add: algebra_simps)
    with c show ?thesis using r unfolding showSourceContext_def n_def Let_def by auto
  next
    case d
    have "[errorLine - 2 .. errorLine] = [errorLine - 2, errorLine - 1, errorLine]"
      using u3 [of "errorLine - 2"] by (simp add: algebra_simps)
    with d show ?thesis using r unfolding showSourceContext_def n_def Let_def by auto
  qed
next
  assume "\<not> (1 \<le> errorLine \<and> errorLine \<le> int (length (Split source (CHR 0x0A))))"
  then show "showSourceContext source errorLine = []"
    unfolding showSourceContext_def Let_def by auto
qed

theorem showSourceContext_excerpt_witness:
  "Split (''a'' @ [CHR 0x0A] @ ''b'' @ [CHR 0x0A] @ ''c'') (CHR 0x0A) = [''a'', ''b'', ''c''] \<and>
   showSourceContext (''a'' @ [CHR 0x0A] @ ''b'' @ [CHR 0x0A] @ ''c'') 2
     = [Context 1 ''a'', Marked 2 ''b'', Context 3 ''c''] \<and>
   showSourceContext (''a'' @ [CHR 0x0A] @ ''b'' @ [CHR 0x0A] @ ''c'') 1
     = [Marked 1 ''a'', Context 2 ''b''] \<and>
   showSourceContext (''a'' @ [CHR 0x0A] @ ''b'' @ [CHR 0x0A] @ ''c'') 4 = [] \<and>
   showSourceContext (''a'' @ [CHR 0x0A] @ ''b'' @ [CHR 0x0A] @ ''c'') 0 = []"
  using showSourceContext_excerpt [of 2 "''a'' @ [CHR 0x0A] @ ''b'' @ [CHR 0x0A] @ ''c''"]
    showSourceContext_excerpt [of 1 "''a'' @ [CHR 0x0A] @ ''b'' @ [CHR 0x0A] @ ''c''"]
    showSourceContext_excerpt [of 4 "''a'' @ [CHR 0x0A] @ ''b'' @ [CHR 0x0A] @ ''c''"]
    showSourceContext_excerpt [of 0 "''a'' @ [CHR 0x0A] @ ''b'' @ [CHR 0x0A] @ ''c''"]
  by simp

end
